theory Spec2Isabelle
  imports Complex_Main
begin

section \<open>Data model\<close>

text \<open>
  The functions of \<^verbatim>\<open>data_sources.py\<close> keep their names, without the leading
  underscore of the private ones.

  A Python \<^verbatim>\<open>float\<close> is either the not-a-number value (the "unavailable" marker
  \<^verbatim>\<open>float("nan")\<close> of the program) or a number. Numbers are taken as exact reals: the
  rounding of IEEE doubles and the infinities are outside the model.
\<close>

datatype pyfloat = NaN | Num real

text \<open>\<^verbatim>\<open>pd.isna\<close> on a float.\<close>

fun isna :: "pyfloat \<Rightarrow> bool" where
  "isna NaN = True"
| "isna (Num _) = False"

text \<open>The exceptions the modelled code can meet.\<close>

datatype exn = TypeError | ValueError | RetrievalError

text \<open>
  A \<^verbatim>\<open>pd.DataFrame\<close> as \<^verbatim>\<open>yfinance\<close> delivers it: the names of its columns and its
  rows in index order. A row carries its index entry (a UTC instant, in nanoseconds since
  the epoch, as \<^verbatim>\<open>pd.Timestamp\<close> counts) and the cells of the two columns the program
  reads; a cell is \<^verbatim>\<open>NaN\<close> when the value is missing. A cell of a column that is not
  listed in \<open>columns\<close> is never read.
\<close>

record row =
  ts :: int
  close :: pyfloat
  volume :: pyfloat

record dataframe =
  columns :: "string list"
  rows :: "row list"

text \<open>\<^verbatim>\<open>pd.DataFrame()\<close>: no columns, no rows.\<close>

definition DataFrame :: dataframe where
  "DataFrame = \<lparr>columns = [], rows = []\<rparr>"

text \<open>\<^verbatim>\<open>df.empty\<close>: one of the two axes has length zero.\<close>

definition df_empty :: "dataframe \<Rightarrow> bool" where
  "df_empty df \<longleftrightarrow> columns df = [] \<or> rows df = []"

text \<open>
  A \<^verbatim>\<open>pd.Series\<close> with its index, as a list of (index entry, value) pairs:
  \<^verbatim>\<open>df["Close"]\<close>, \<^verbatim>\<open>df["Volume"]\<close>, \<^verbatim>\<open>.dropna()\<close> and \<^verbatim>\<open>.fillna(0)\<close>.
\<close>

type_synonym series = "(int \<times> pyfloat) list"

definition Close :: "dataframe \<Rightarrow> series" where
  "Close df = map (\<lambda>r. (ts r, close r)) (rows df)"

definition Volume :: "dataframe \<Rightarrow> series" where
  "Volume df = map (\<lambda>r. (ts r, volume r)) (rows df)"

definition dropna :: "series \<Rightarrow> series" where
  "dropna s = filter (\<lambda>(t, v). \<not> isna v) s"

fun fillna0 :: "pyfloat \<Rightarrow> real" where
  "fillna0 NaN = 0"
| "fillna0 (Num v) = v"

text \<open>
  \<^verbatim>\<open>float(s.iloc[-1])\<close>, \<^verbatim>\<open>float(s.iloc[0])\<close> and \<^verbatim>\<open>s.index[-1]\<close> of a series
  without missing values. All three raise on an empty series; the program reads them only
  behind its \<^verbatim>\<open>.empty\<close> checks, and the model gives the empty case (and a missing
  value, which \<^verbatim>\<open>dropna\<close> has removed) the value \<open>0\<close> it never uses.
\<close>

fun to_real :: "pyfloat \<Rightarrow> real" where
  "to_real NaN = 0"
| "to_real (Num v) = v"

definition iloc_last :: "series \<Rightarrow> real" where
  "iloc_last s = (case rev s of [] \<Rightarrow> 0 | (t, v) # _ \<Rightarrow> to_real v)"

definition iloc_first :: "series \<Rightarrow> real" where
  "iloc_first s = (case s of [] \<Rightarrow> 0 | (t, v) # _ \<Rightarrow> to_real v)"

definition index_last :: "series \<Rightarrow> int" where
  "index_last s = (case rev s of [] \<Rightarrow> 0 | (t, v) # _ \<Rightarrow> t)"

text \<open>
  \<^verbatim>\<open>pd.Timedelta(hours=h)\<close> in nanoseconds, and the label slice \<^verbatim>\<open>s.loc[:cutoff]\<close> on
  an index that increases monotonically (as the upstream delivers it): a binary search
  for the first entry after \<open>cutoff\<close>, that is the longest prefix of entries at or before
  \<open>cutoff\<close>.
\<close>

definition Timedelta_hours :: "int \<Rightarrow> int" where
  "Timedelta_hours h = h * 3600000000000"

definition loc_upto :: "series \<Rightarrow> int \<Rightarrow> series" where
  "loc_upto s cutoff = takeWhile (\<lambda>(t, v). t \<le> cutoff) s"

section \<open>The numeric reductions\<close>

text \<open>\<^verbatim>\<open>_pct_change_over_hours(df, hours)\<close>, lines 49 to 65.\<close>

definition pct_change_over_hours :: "dataframe \<Rightarrow> int \<Rightarrow> pyfloat" where
  "pct_change_over_hours df hours =
     (if df_empty df \<or> ''Close'' \<notin> set (columns df) then NaN
      else let closes = dropna (Close df) in
        if closes = [] then NaN
        else let last_time = index_last closes;
                 lst = iloc_last closes;
                 cutoff_time = last_time - Timedelta_hours hours;
                 past_series = loc_upto closes cutoff_time;
                 base = (if past_series = [] then iloc_first closes
                         else iloc_last past_series)
             in if base = 0 \<or> isna (Num base) then NaN
                else Num ((lst - base) / base * 100))"

text \<open>\<^verbatim>\<open>_last_hour_volume_sum(df, now_utc)\<close>, lines 67 to 72.\<close>

definition last_hour_volume_sum :: "dataframe \<Rightarrow> int \<Rightarrow> real" where
  "last_hour_volume_sum df now_utc =
     (if df_empty df \<or> ''Volume'' \<notin> set (columns df) then 0
      else let one_hour_ago = now_utc - Timedelta_hours 1;
               mask = map (\<lambda>r. ts r > one_hour_ago \<and> ts r \<le> now_utc) (rows df);
               selected = map fst (filter snd (zip (Volume df) mask))
           in sum_list (map (\<lambda>(t, v). fillna0 v) selected))"

text \<open>\<^verbatim>\<open>_latest_price(df)\<close>, lines 74 to 80.\<close>

definition latest_price :: "dataframe \<Rightarrow> pyfloat" where
  "latest_price df =
     (if df_empty df \<or> ''Close'' \<notin> set (columns df) then NaN
      else let closes = dropna (Close df) in
        if closes = [] then NaN
        else Num (iloc_last closes))"

section \<open>The snapshot builder\<close>

text \<open>
  A \<^verbatim>\<open>pd.Timestamp\<close>: an instant and, when the timestamp is timezone-aware, the name
  of its zone. \<^verbatim>\<open>pd.Timestamp.utcnow()\<close> returns the current instant as a
  timezone-aware timestamp in UTC; \<^verbatim>\<open>tz_localize\<close> attaches a zone to a naive
  timestamp and raises \<^verbatim>\<open>TypeError\<close> ("Cannot localize tz-aware Timestamp, use
  tz_convert for conversions") on one that already has a zone.
\<close>

record timestamp =
  instant :: int
  tz :: "string option"

definition Timestamp_utcnow :: "int \<Rightarrow> timestamp" where
  "Timestamp_utcnow clock = \<lparr>instant = clock, tz = Some ''UTC''\<rparr>"

definition tz_localize :: "timestamp \<Rightarrow> string \<Rightarrow> exn + timestamp" where
  "tz_localize t zone =
     (case tz t of None \<Rightarrow> Inr (t\<lparr>tz := Some zone\<rparr>) | Some _ \<Rightarrow> Inl TypeError)"

text \<open>
  What one run of the builder reads from outside: the formatted local time of line 124,
  the system clock at each of its two reads (lines 95 and 118), and the outcome of each
  call of \<^verbatim>\<open>yf.Ticker(ticker).history(period, interval)\<close>, an exception or a frame.
  The calls are numbered in program order, so that two calls with the same arguments may
  differ.
\<close>

record world =
  now_local :: string
  utc_clock :: "nat \<Rightarrow> int"
  history :: "nat \<Rightarrow> string \<Rightarrow> string \<Rightarrow> string \<Rightarrow> exn + dataframe"

text \<open>
  \<^verbatim>\<open>_safe_history\<close>, lines 36 to 47: any exception of the retrieval gives the empty
  frame. Normalising the index to UTC leaves the instants, which are all the model keeps
  of the index, as they are.
\<close>

definition safe_history :: "world \<Rightarrow> nat \<Rightarrow> string \<Rightarrow> string \<Rightarrow> string \<Rightarrow> dataframe" where
  "safe_history w n ticker period interval =
     (case history w n ticker period interval of
        Inl e \<Rightarrow> DataFrame
      | Inr df \<Rightarrow> df)"

text \<open>\<^verbatim>\<open>TICKERS\<close>, lines 14 to 18.\<close>

definition TICKERS_spot :: string where
  "TICKERS_spot = ''XAUUSD=X''"

definition TICKERS_etf :: string where
  "TICKERS_etf = ''GLD''"

definition TICKERS_futures :: "string list" where
  "TICKERS_futures = [''GC=F'', ''MGC=F'']"

text \<open>
  The snapshot dictionary of lines 123 to 145, one record per sub-dictionary and one field
  per key. A numeric field holds a float or \<^verbatim>\<open>None\<close> (the formatter tests for both);
  the builder only ever stores floats. Two keys of the futures group are renamed, their
  plain names being taken: \<^verbatim>\<open>change_24h_pct\<close> is \<open>fut_change_24h_pct\<close> and
  \<^verbatim>\<open>last_hour_volume_sum\<close> is \<open>last_hour_volume_sum_of\<close>.
\<close>

record quote =
  ticker :: string
  price :: "pyfloat option"
  change_24h_pct :: "pyfloat option"

record etf_quote = quote +
  last_hour_volume :: "pyfloat option"

record futures_quote =
  tickers :: "string list"
  price_main :: "pyfloat option"
  fut_change_24h_pct :: "pyfloat option"
  last_hour_volume_sum_of :: "pyfloat option"

record totals_rec =
  last_hour_volume_all :: "pyfloat option"

record snapshot =
  as_of_local :: string
  spot :: quote
  etf :: etf_quote
  futures :: futures_quote
  totals :: totals_rec

text \<open>The frames fetched by lines 98 to 105 and 110, under the names the code gives them.\<close>

record frames =
  spot_1h :: dataframe
  etf_1h :: dataframe
  fut_main_1h :: dataframe
  spot_1m :: dataframe
  etf_1m :: dataframe
  fut_1m_list :: "dataframe list"
  fut_main_1m :: dataframe

definition fetch :: "world \<Rightarrow> frames" where
  "fetch w =
     \<lparr>spot_1h = safe_history w 0 TICKERS_spot ''3d'' ''1h'',
      etf_1h = safe_history w 1 TICKERS_etf ''5d'' ''1h'',
      fut_main_1h = safe_history w 2 (TICKERS_futures ! 0) ''5d'' ''1h'',
      spot_1m = safe_history w 3 TICKERS_spot ''90m'' ''1m'',
      etf_1m = safe_history w 4 TICKERS_etf ''90m'' ''1m'',
      fut_1m_list = map (\<lambda>(i, t). safe_history w (5 + i) t ''90m'' ''1m'')
                        (enumerate 0 TICKERS_futures),
      fut_main_1m = safe_history w 7 (TICKERS_futures ! 0) ''90m'' ''1m''\<rparr>"

text \<open>
  Lines 108 to 145 once the frames, the formatted local time and \<^verbatim>\<open>now_utc_ts\<close> are
  there: prices, changes, volumes and the dictionary. Python's \<^verbatim>\<open>sum\<close> adds from
  the left, starting at 0.
\<close>

definition build :: "string \<Rightarrow> frames \<Rightarrow> int \<Rightarrow> snapshot" where
  "build as_of f now_utc_ts =
     (let spot_price = latest_price (if \<not> df_empty (spot_1m f) then spot_1m f else spot_1h f);
          etf_price = latest_price (if \<not> df_empty (etf_1m f) then etf_1m f else etf_1h f);
          futures_price =
            latest_price (if \<not> df_empty (fut_main_1m f) then fut_main_1m f else fut_main_1h f);
          spot_change = pct_change_over_hours (spot_1h f) 24;
          etf_change = pct_change_over_hours (etf_1h f) 24;
          futures_change = pct_change_over_hours (fut_main_1h f) 24;
          fut_volumes =
            foldl (+) 0 (map (\<lambda>df. last_hour_volume_sum df now_utc_ts) (fut_1m_list f));
          etf_volume = last_hour_volume_sum (etf_1m f) now_utc_ts;
          total_volume = fut_volumes + etf_volume
      in \<lparr>as_of_local = as_of,
          spot = \<lparr>ticker = TICKERS_spot, price = Some spot_price,
                  change_24h_pct = Some spot_change\<rparr>,
          etf = \<lparr>ticker = TICKERS_etf, price = Some etf_price,
                 change_24h_pct = Some etf_change,
                 last_hour_volume = Some (Num etf_volume)\<rparr>,
          futures = \<lparr>tickers = TICKERS_futures, price_main = Some futures_price,
                     fut_change_24h_pct = Some futures_change,
                     last_hour_volume_sum_of = Some (Num fut_volumes)\<rparr>,
          totals = \<lparr>last_hour_volume_all = Some (Num total_volume)\<rparr>\<rparr>)"

text \<open>
  \<^verbatim>\<open>get_gold_snapshot\<close>, lines 82 to 145. Both clock reads (line 95, before the
  retrievals, and line 118, after them) are \<^verbatim>\<open>pd.Timestamp.utcnow().tz_localize("UTC")\<close>;
  an exception of either ends the call.
\<close>

definition get_gold_snapshot :: "world \<Rightarrow> exn + snapshot" where
  "get_gold_snapshot w =
     (case tz_localize (Timestamp_utcnow (utc_clock w 0)) ''UTC'' of
        Inl e \<Rightarrow> Inl e
      | Inr now_utc \<Rightarrow>
          let f = fetch w in
          (case tz_localize (Timestamp_utcnow (utc_clock w 1)) ''UTC'' of
             Inl e \<Rightarrow> Inl e
           | Inr now_utc_ts \<Rightarrow> Inr (build (now_local w) f (instant now_utc_ts))))"

section \<open>The snapshot formatter\<close>

text \<open>
  Python's number formatting. \<^verbatim>\<open>round(x)\<close> and the \<^verbatim>\<open>f\<close> presentation type round to
  the nearest value, a tie to the even one; the \<^verbatim>\<open>,\<close> option groups the integer digits
  in threes; a negative number keeps its sign also when it rounds to zero.
\<close>

definition round_half_even :: "real \<Rightarrow> int" where
  "round_half_even x =
     (let f = \<lfloor>x\<rfloor>; d = x - of_int f
      in if d < 1 / 2 then f else if 1 / 2 < d then f + 1 else if even f then f else f + 1)"

fun dec :: "nat \<Rightarrow> string" where
  "dec n = (if n < 10 then [''0123456789'' ! n]
            else dec (n div 10) @ [''0123456789'' ! (n mod 10)])"

fun commas_rev :: "string \<Rightarrow> string" where
  "commas_rev (a # b # c # d # ds) = a # b # c # CHR '','' # commas_rev (d # ds)"
| "commas_rev ds = ds"

definition grouped :: "nat \<Rightarrow> string" where
  "grouped n = rev (commas_rev (rev (dec n)))"

definition two_digits :: "nat \<Rightarrow> string" where
  "two_digits n = [''0123456789'' ! (n div 10), ''0123456789'' ! (n mod 10)]"

text \<open>\<^verbatim>\<open>f"{x:,.2f}"\<close>, \<^verbatim>\<open>f"{x:+.2f}"\<close> and \<^verbatim>\<open>f"{n:,}"\<close> on numbers.\<close>

definition format_comma_2f :: "real \<Rightarrow> string" where
  "format_comma_2f x =
     (let n = nat (round_half_even (\<bar>x\<bar> * 100))
      in (if x < 0 then ''-'' else []) @ grouped (n div 100) @ ''.'' @ two_digits (n mod 100))"

definition format_plus_2f :: "real \<Rightarrow> string" where
  "format_plus_2f x =
     (let n = nat (round_half_even (\<bar>x\<bar> * 100))
      in (if x < 0 then ''-'' else ''+'') @ dec (n div 100) @ ''.'' @ two_digits (n mod 100))"

definition format_comma_int :: "int \<Rightarrow> string" where
  "format_comma_int n = (if n < 0 then ''-'' else []) @ grouped (nat \<bar>n\<bar>)"

text \<open>
  The two built-ins that can raise. Formatting \<^verbatim>\<open>None\<close> with a float format raises
  \<^verbatim>\<open>TypeError\<close>, while formatting not-a-number gives the text \<^verbatim>\<open>nan\<close>;
  \<^verbatim>\<open>int(round(x))\<close> raises \<^verbatim>\<open>TypeError\<close> on \<^verbatim>\<open>None\<close> and \<^verbatim>\<open>ValueError\<close> on
  not-a-number.
\<close>

fun format_money :: "pyfloat option \<Rightarrow> exn + string" where
  "format_money None = Inl TypeError"
| "format_money (Some NaN) = Inr ''nan''"
| "format_money (Some (Num x)) = Inr (format_comma_2f x)"

fun int_round :: "pyfloat option \<Rightarrow> exn + int" where
  "int_round None = Inl TypeError"
| "int_round (Some NaN) = Inl ValueError"
| "int_round (Some (Num x)) = Inr (round_half_even x)"

text \<open>
  \<^verbatim>\<open>_fmt_money\<close> (lines 24 to 28), \<^verbatim>\<open>_fmt_int\<close> (lines 30 to 34) and the local
  \<^verbatim>\<open>pct\<close> (lines 148 and 149). Each function of the formatter returns its text or the
  exception that leaves it.
\<close>

definition fmt_money :: "pyfloat option \<Rightarrow> exn + string" where
  "fmt_money x = (case format_money x of Inr s \<Rightarrow> Inr s | Inl e \<Rightarrow> Inr ''n/a'')"

definition fmt_int :: "pyfloat option \<Rightarrow> exn + string" where
  "fmt_int x = (case int_round x of Inr n \<Rightarrow> Inr (format_comma_int n) | Inl e \<Rightarrow> Inr ''0'')"

definition pct :: "pyfloat option \<Rightarrow> exn + string" where
  "pct p =
     (case p of
        None \<Rightarrow> Inr ''n/a''
      | Some v \<Rightarrow> if isna v then Inr ''n/a'' else Inr (format_plus_2f (to_real v) @ ''%''))"

text \<open>
  The fixed texts of lines 151 to 176, as the bytes of their UTF-8 encoding, and
  \<^verbatim>\<open>sep.join(items)\<close>.
\<close>

definition txt_title :: string where
  "txt_title =
     [CHR 0xF0, CHR 0x9F, CHR 0x93, CHR 0x8A] @ '' *''
       @ [CHR 0xD0, CHR 0x97, CHR 0xD0, CHR 0xBE, CHR 0xD0, CHR 0xBB, CHR 0xD0, CHR 0xBE, CHR 0xD1, CHR 0x82]
       @ [CHR 0xD0, CHR 0xBE] @ '' '' @ [CHR 0xE2, CHR 0x80, CHR 0x94] @ '' ''
       @ [CHR 0xD1, CHR 0x81, CHR 0xD0, CHR 0xB2, CHR 0xD0, CHR 0xBE, CHR 0xD0, CHR 0xB4, CHR 0xD0, CHR 0xBA]
       @ [CHR 0xD0, CHR 0xB0] @ ''*''"

definition txt_updated :: string where
  "txt_updated =
     [CHR 0xE2, CHR 0x8F, CHR 0xB1] @ '' ''
       @ [CHR 0xD0, CHR 0x9E, CHR 0xD0, CHR 0xB1, CHR 0xD0, CHR 0xBD, CHR 0xD0, CHR 0xBE, CHR 0xD0, CHR 0xB2]
       @ [CHR 0xD0, CHR 0xBB, CHR 0xD0, CHR 0xB5, CHR 0xD0, CHR 0xBD, CHR 0xD0, CHR 0xBE]
       @ '': ''"

definition txt_spot :: string where
  "txt_spot =
     [CHR 0xF0, CHR 0x9F, CHR 0xAA, CHR 0x99] @ '' *Spot (XAU/USD)* '' @ [CHR 0x60]"

definition txt_price :: string where
  "txt_price =
     ''  ''
       @ [CHR 0xD0, CHR 0xA6, CHR 0xD0, CHR 0xB5, CHR 0xD0, CHR 0xBD, CHR 0xD0, CHR 0xB0]
       @ '': $''"

definition txt_day :: string where
  "txt_day =
     ''  |  24'' @ [CHR 0xD1, CHR 0x87] @ '': ''"

definition txt_etf :: string where
  "txt_etf =
     [CHR 0xF0, CHR 0x9F, CHR 0x8F, CHR 0xA6] @ '' *''
       @ [CHR 0xD0, CHR 0xA4, CHR 0xD0, CHR 0xBE, CHR 0xD0, CHR 0xBD, CHR 0xD0, CHR 0xB4, CHR 0xD0, CHR 0xBE]
       @ [CHR 0xD0, CHR 0xB2, CHR 0xD1, CHR 0x8B, CHR 0xD0, CHR 0xB9] @ '' ''
       @ [CHR 0xD1, CHR 0x80, CHR 0xD1, CHR 0x8B, CHR 0xD0, CHR 0xBD, CHR 0xD0, CHR 0xBE, CHR 0xD0, CHR 0xBA]
       @ '' (ETF)* '' @ [CHR 0x60]"

definition txt_volume :: string where
  "txt_volume =
     ''  ''
       @ [CHR 0xD0, CHR 0x9E, CHR 0xD0, CHR 0xB1, CHR 0xD1, CHR 0x8A, CHR 0xD1, CHR 0x91, CHR 0xD0, CHR 0xBC]
       @ '' '' @ [CHR 0xD0, CHR 0xB7, CHR 0xD0, CHR 0xB0] @ '' ''
       @ [CHR 0xD0, CHR 0xBF, CHR 0xD0, CHR 0xBE, CHR 0xD1, CHR 0x81, CHR 0xD0, CHR 0xBB, CHR 0xD0, CHR 0xB5]
       @ [CHR 0xD0, CHR 0xB4, CHR 0xD0, CHR 0xBD, CHR 0xD0, CHR 0xB8, CHR 0xD0, CHR 0xB9]
       @ '' '' @ [CHR 0xD1, CHR 0x87, CHR 0xD0, CHR 0xB0, CHR 0xD1, CHR 0x81] @ '': ''"

definition txt_futures :: string where
  "txt_futures =
     [CHR 0xF0, CHR 0x9F, CHR 0x9B, CHR 0xA2] @ '' *''
       @ [CHR 0xD0, CHR 0xA4, CHR 0xD1, CHR 0x8C, CHR 0xD1, CHR 0x8E, CHR 0xD1, CHR 0x87, CHR 0xD0, CHR 0xB5]
       @ [CHR 0xD1, CHR 0x80, CHR 0xD1, CHR 0x81, CHR 0xD1, CHR 0x8B] @ '' (COMEX)* ''"

definition txt_price_main :: string where
  "txt_price_main =
     ''  ''
       @ [CHR 0xD0, CHR 0xA6, CHR 0xD0, CHR 0xB5, CHR 0xD0, CHR 0xBD, CHR 0xD0, CHR 0xB0]
       @ '' (''
       @ [CHR 0xD0, CHR 0xB3, CHR 0xD0, CHR 0xBB, CHR 0xD0, CHR 0xB0, CHR 0xD0, CHR 0xB2, CHR 0xD0, CHR 0xBD]
       @ [CHR 0xD1, CHR 0x8B, CHR 0xD0, CHR 0xB9] @ '' ''
       @ [CHR 0xD0, CHR 0xBA, CHR 0xD0, CHR 0xBE, CHR 0xD0, CHR 0xBD, CHR 0xD1, CHR 0x82, CHR 0xD1, CHR 0x80]
       @ [CHR 0xD0, CHR 0xB0, CHR 0xD0, CHR 0xBA, CHR 0xD1, CHR 0x82] @ ''): $''"

definition txt_volume_sum :: string where
  "txt_volume_sum =
     ''  ''
       @ [CHR 0xD0, CHR 0xA1, CHR 0xD1, CHR 0x83, CHR 0xD0, CHR 0xBC, CHR 0xD0, CHR 0xBC, CHR 0xD0, CHR 0xB0]
       @ [CHR 0xD1, CHR 0x80, CHR 0xD0, CHR 0xBD, CHR 0xD1, CHR 0x8B, CHR 0xD0, CHR 0xB9]
       @ '' ''
       @ [CHR 0xD0, CHR 0xBE, CHR 0xD0, CHR 0xB1, CHR 0xD1, CHR 0x8A, CHR 0xD1, CHR 0x91, CHR 0xD0, CHR 0xBC]
       @ '' ''
       @ [CHR 0xD1, CHR 0x84, CHR 0xD1, CHR 0x8C, CHR 0xD1, CHR 0x8E, CHR 0xD1, CHR 0x87, CHR 0xD0, CHR 0xB5]
       @ [CHR 0xD1, CHR 0x80, CHR 0xD1, CHR 0x81, CHR 0xD0, CHR 0xBE, CHR 0xD0, CHR 0xB2]
       @ '' '' @ [CHR 0xD0, CHR 0xB7, CHR 0xD0, CHR 0xB0] @ '' ''
       @ [CHR 0xD0, CHR 0xBF, CHR 0xD0, CHR 0xBE, CHR 0xD1, CHR 0x81, CHR 0xD0, CHR 0xBB, CHR 0xD0, CHR 0xB5]
       @ [CHR 0xD0, CHR 0xB4, CHR 0xD0, CHR 0xBD, CHR 0xD0, CHR 0xB8, CHR 0xD0, CHR 0xB9]
       @ '' '' @ [CHR 0xD1, CHR 0x87, CHR 0xD0, CHR 0xB0, CHR 0xD1, CHR 0x81] @ '': ''"

definition txt_total :: string where
  "txt_total =
     [CHR 0xF0, CHR 0x9F, CHR 0xA7, CHR 0xAE] @ '' *''
       @ [CHR 0xD0, CHR 0x98, CHR 0xD1, CHR 0x82, CHR 0xD0, CHR 0xBE, CHR 0xD0, CHR 0xB3, CHR 0xD0, CHR 0xBE]
       @ '' ''
       @ [CHR 0xD0, CHR 0xBE, CHR 0xD0, CHR 0xB1, CHR 0xD1, CHR 0x8A, CHR 0xD1, CHR 0x91, CHR 0xD0, CHR 0xBC]
       @ '' (ETF + ''
       @ [CHR 0xD1, CHR 0x84, CHR 0xD1, CHR 0x8C, CHR 0xD1, CHR 0x8E, CHR 0xD1, CHR 0x87, CHR 0xD0, CHR 0xB5]
       @ [CHR 0xD1, CHR 0x80, CHR 0xD1, CHR 0x81, CHR 0xD1, CHR 0x8B] @ '') ''
       @ [CHR 0xD0, CHR 0xB7, CHR 0xD0, CHR 0xB0] @ '' ''
       @ [CHR 0xD0, CHR 0xBF, CHR 0xD0, CHR 0xBE, CHR 0xD1, CHR 0x81, CHR 0xD0, CHR 0xBB, CHR 0xD0, CHR 0xB5]
       @ [CHR 0xD0, CHR 0xB4, CHR 0xD0, CHR 0xBD, CHR 0xD0, CHR 0xB8, CHR 0xD0, CHR 0xB9]
       @ '' '' @ [CHR 0xD1, CHR 0x87, CHR 0xD0, CHR 0xB0, CHR 0xD1, CHR 0x81] @ '':* ''"

definition txt_source :: string where
  "txt_source =
     ''_''
       @ [CHR 0xD0, CHR 0x98, CHR 0xD1, CHR 0x81, CHR 0xD1, CHR 0x82, CHR 0xD0, CHR 0xBE, CHR 0xD1, CHR 0x87]
       @ [CHR 0xD0, CHR 0xBD, CHR 0xD0, CHR 0xB8, CHR 0xD0, CHR 0xBA] @ '' ''
       @ [CHR 0xD0, CHR 0xB4, CHR 0xD0, CHR 0xB0, CHR 0xD0, CHR 0xBD, CHR 0xD0, CHR 0xBD, CHR 0xD1, CHR 0x8B]
       @ [CHR 0xD1, CHR 0x85] @ '': Yahoo Finance (''
       @ [CHR 0xD1, CHR 0x87, CHR 0xD0, CHR 0xB5, CHR 0xD1, CHR 0x80, CHR 0xD0, CHR 0xB5, CHR 0xD0, CHR 0xB7]
       @ '' yfinance). ''
       @ [CHR 0xD0, CHR 0x9E, CHR 0xD0, CHR 0xB1, CHR 0xD1, CHR 0x8A, CHR 0xD1, CHR 0x91, CHR 0xD0, CHR 0xBC]
       @ [CHR 0xD1, CHR 0x8B] @ '' ''
       @ [CHR 0xD1, CHR 0x81, CHR 0xD0, CHR 0xBF, CHR 0xD0, CHR 0xBE, CHR 0xD1, CHR 0x82, CHR 0xD0, CHR 0xB0]
       @ '' ''
       @ [CHR 0xD0, CHR 0xBE, CHR 0xD0, CHR 0xB1, CHR 0xD1, CHR 0x8B, CHR 0xD1, CHR 0x87, CHR 0xD0, CHR 0xBD]
       @ [CHR 0xD0, CHR 0xBE] @ '' ''
       @ [CHR 0xD0, CHR 0xBD, CHR 0xD0, CHR 0xB5, CHR 0xD0, CHR 0xB4, CHR 0xD0, CHR 0xBE, CHR 0xD1, CHR 0x81]
       @ [CHR 0xD1, CHR 0x82, CHR 0xD1, CHR 0x83, CHR 0xD0, CHR 0xBF, CHR 0xD0, CHR 0xBD, CHR 0xD1, CHR 0x8B]
       @ '', ''
       @ [CHR 0xD0, CHR 0xBF, CHR 0xD0, CHR 0xBE, CHR 0xD1, CHR 0x8D, CHR 0xD1, CHR 0x82, CHR 0xD0, CHR 0xBE]
       @ [CHR 0xD0, CHR 0xBC, CHR 0xD1, CHR 0x83] @ '' '' @ [CHR 0xD0, CHR 0xB2] @ '' ''
       @ [CHR 0xD0, CHR 0xB8, CHR 0xD1, CHR 0x82, CHR 0xD0, CHR 0xBE, CHR 0xD0, CHR 0xB3]
       @ '' ''
       @ [CHR 0xD0, CHR 0xB2, CHR 0xD0, CHR 0xBA, CHR 0xD0, CHR 0xBB, CHR 0xD1, CHR 0x8E, CHR 0xD1, CHR 0x87]
       @ [CHR 0xD0, CHR 0xB5, CHR 0xD0, CHR 0xBD, CHR 0xD1, CHR 0x8B] @ '' ETF ''
       @ [CHR 0xD0, CHR 0xB8] @ '' ''
       @ [CHR 0xD1, CHR 0x84, CHR 0xD1, CHR 0x8C, CHR 0xD1, CHR 0x8E, CHR 0xD1, CHR 0x87, CHR 0xD0, CHR 0xB5]
       @ [CHR 0xD1, CHR 0x80, CHR 0xD1, CHR 0x81, CHR 0xD1, CHR 0x8B] @ ''._''"

fun join :: "string \<Rightarrow> string list \<Rightarrow> string" where
  "join sep [] = []"
| "join sep [x] = x"
| "join sep (x # y # ys) = x @ sep @ join sep (y # ys)"

text \<open>Sequencing two steps that may raise: the second runs on the value of the first.\<close>

definition bind :: "exn + 'a \<Rightarrow> ('a \<Rightarrow> exn + 'b) \<Rightarrow> exn + 'b" where
  "bind m k = (case m of Inl e \<Rightarrow> Inl e | Inr v \<Rightarrow> k v)"

text \<open>\<^verbatim>\<open>format_snapshot\<close>, lines 147 to 177; the texts are computed in program order.\<close>

definition format_snapshot :: "snapshot \<Rightarrow> exn + string" where
  "format_snapshot s =
     (let sp = spot s; et = etf s; fu = futures s; tot = totals s in
      bind (fmt_money (price sp)) (\<lambda>sp_price.
      bind (pct (change_24h_pct sp)) (\<lambda>sp_change.
      bind (fmt_money (price et)) (\<lambda>et_price.
      bind (pct (change_24h_pct et)) (\<lambda>et_change.
      bind (fmt_int (last_hour_volume et)) (\<lambda>et_volume.
      let tickers_str = join '', '' (map (\<lambda>t. [CHR 0x60] @ t @ [CHR 0x60]) (tickers fu)) in
      bind (fmt_money (price_main fu)) (\<lambda>fu_price.
      bind (pct (fut_change_24h_pct fu)) (\<lambda>fu_change.
      bind (fmt_int (last_hour_volume_sum_of fu)) (\<lambda>fu_volume.
      bind (fmt_int (last_hour_volume_all tot)) (\<lambda>tot_volume.
      Inr (join [CHR 0x0A]
        [txt_title,
         txt_updated @ as_of_local s,
         [],
         txt_spot @ ticker sp @ [CHR 0x60],
         txt_price @ sp_price @ txt_day @ sp_change,
         [],
         txt_etf @ ticker et @ [CHR 0x60],
         txt_price @ et_price @ txt_day @ et_change,
         txt_volume @ et_volume,
         [],
         txt_futures @ tickers_str,
         txt_price_main @ fu_price @ txt_day @ fu_change,
         txt_volume_sum @ fu_volume,
         [],
         txt_total @ tot_volume,
         [],
         txt_source])))))))))))"

section \<open>Series and scenarios used in the statements\<close>

text \<open>
  The scenario of the trailing-hour volume: volumes 10, 20 and 30 at 70, 30 and 5 minutes
  before \<open>now\<close>, with any closes.
\<close>

definition volume_example :: "int \<Rightarrow> pyfloat \<Rightarrow> pyfloat \<Rightarrow> pyfloat \<Rightarrow> dataframe" where
  "volume_example now c1 c2 c3 =
     \<lparr>columns = [''Close'', ''Volume''],
      rows = [\<lparr>ts = now - 70 * 60000000000, close = c1, volume = Num 10\<rparr>,
              \<lparr>ts = now - 30 * 60000000000, close = c2, volume = Num 20\<rparr>,
              \<lparr>ts = now - 5 * 60000000000, close = c3, volume = Num 30\<rparr>]\<rparr>"

text \<open>
  A minute series with a missing volume and with samples on both edges of the hour that
  ends at the instant \<open>3600000000000\<close>.
\<close>

definition volume_gaps :: dataframe where
  "volume_gaps =
     \<lparr>columns = [''Close'', ''Volume''],
      rows = [\<lparr>ts = 0, close = Num 1, volume = Num 7\<rparr>,
              \<lparr>ts = 1, close = Num 1, volume = Num 4\<rparr>,
              \<lparr>ts = 1800000000000, close = NaN, volume = NaN\<rparr>,
              \<lparr>ts = 3600000000000, close = Num 2, volume = Num 8\<rparr>,
              \<lparr>ts = 3600000000001, close = Num 2, volume = Num 16\<rparr>]\<rparr>"

text \<open>
  The close of the last sample with a non-missing close: the samples are read from the
  end, and trailing samples whose close is missing are skipped. A frame without a close
  column has none.
\<close>

definition last_valid_close :: "dataframe \<Rightarrow> real option" where
  "last_valid_close df =
     (if ''Close'' \<in> set (columns df)
      then (case dropWhile (\<lambda>r. isna (close r)) (rev (rows df)) of
              [] \<Rightarrow> None
            | r # _ \<Rightarrow> Some (to_real (close r)))
      else None)"

text \<open>A price that may be absent, as the float the snapshot reports.\<close>

definition reported :: "real option \<Rightarrow> pyfloat" where
  "reported v = (case v of None \<Rightarrow> NaN | Some c \<Rightarrow> Num c)"

text \<open>
  The latest price as claim C1 words it: the fine series is passed over whenever it has no
  valid close.
\<close>

definition claimed_latest_price :: "dataframe \<Rightarrow> dataframe \<Rightarrow> pyfloat" where
  "claimed_latest_price fine coarse =
     (case last_valid_close fine of
        Some c \<Rightarrow> Num c
      | None \<Rightarrow> reported (last_valid_close coarse))"

text \<open>
  The latest price with the fallback decided by emptiness alone: the coarse series is
  read only when the fine frame is empty.
\<close>

definition fallback_latest_price :: "dataframe \<Rightarrow> dataframe \<Rightarrow> pyfloat" where
  "fallback_latest_price fine coarse =
     (if df_empty fine then reported (last_valid_close coarse)
      else reported (last_valid_close fine))"

text \<open>
  Sample frames: an hourly series closing at 100, a minute series whose only close is
  missing, a minute series with a trailing missing close, and the frames of a run in
  which every instrument has the same fine and coarse series.
\<close>

definition hourly_100 :: dataframe where
  "hourly_100 = \<lparr>columns = [''Close'', ''Volume''],
      rows = [\<lparr>ts = 0, close = Num 100, volume = Num 1\<rparr>]\<rparr>"

definition minute_missing :: dataframe where
  "minute_missing = \<lparr>columns = [''Close'', ''Volume''],
      rows = [\<lparr>ts = 3600000000000, close = NaN, volume = Num 5\<rparr>]\<rparr>"

definition minute_trailing :: dataframe where
  "minute_trailing = \<lparr>columns = [''Close'', ''Volume''],
      rows = [\<lparr>ts = 3540000000000, close = Num 101, volume = Num 5\<rparr>,
              \<lparr>ts = 3600000000000, close = Num 102, volume = Num 5\<rparr>,
              \<lparr>ts = 3660000000000, close = NaN, volume = NaN\<rparr>]\<rparr>"

definition frames_of :: "dataframe \<Rightarrow> dataframe \<Rightarrow> frames" where
  "frames_of fine coarse =
     \<lparr>spot_1h = coarse, etf_1h = coarse, fut_main_1h = coarse,
      spot_1m = fine, etf_1m = fine, fut_1m_list = [fine, DataFrame], fut_main_1m = fine\<rparr>"

text \<open>
  The 24-hour change in the words of its specification. The valid closes of a frame are
  its samples with a non-missing close, each with its timestamp; the most recent of a
  set of samples is the one with the greatest timestamp, the earliest the one with the
  least.
\<close>

definition valid_closes :: "dataframe \<Rightarrow> (int \<times> real) list" where
  "valid_closes df =
     (if ''Close'' \<in> set (columns df)
      then map (\<lambda>r. (ts r, to_real (close r))) (filter (\<lambda>r. \<not> isna (close r)) (rows df))
      else [])"

definition most_recent :: "(int \<times> real) list \<Rightarrow> int \<times> real" where
  "most_recent s = arg_min_list (\<lambda>(t, c). - t) s"

definition earliest :: "(int \<times> real) list \<Rightarrow> int \<times> real" where
  "earliest s = arg_min_list (\<lambda>(t, c). t) s"

text \<open>
  The base price: the most recent valid close at or before the cutoff, 24 hours before
  the timestamp of the most recent valid close; when no valid close lies at or before
  the cutoff, the earliest valid close of the whole series.
\<close>

definition spec_base_24h :: "(int \<times> real) list \<Rightarrow> real" where
  "spec_base_24h s =
     (let cutoff = fst (most_recent s) - 24 * 3600000000000;
          past = filter (\<lambda>(t, c). t \<le> cutoff) s
      in snd (if past = [] then earliest s else most_recent past))"

text \<open>
  The change: unavailable when there is no valid close or the base is zero, and
  \<open>(last - base) / base * 100\<close> otherwise.
\<close>

definition spec_pct_change_24h :: "dataframe \<Rightarrow> pyfloat" where
  "spec_pct_change_24h df =
     (let s = valid_closes df in
      if s = [] then NaN
      else let lst = snd (most_recent s); base = spec_base_24h s
           in if base = 0 then NaN else Num ((lst - base) / base * 100))"

text \<open>
  The computation of \<^verbatim>\<open>_pct_change_over_hours\<close> read off the rows that have a close.
\<close>

definition pct_change_rows :: "row list \<Rightarrow> int \<Rightarrow> pyfloat" where
  "pct_change_rows v hours =
     (if v = [] then NaN
      else let past = takeWhile (\<lambda>r. ts r \<le> ts (last v) - Timedelta_hours hours) v;
               base = to_real (close (if past = [] then hd v else last past))
           in if base = 0 then NaN
              else Num ((to_real (close (last v)) - base) / base * 100))"



text \<open>
  Hourly series: closes 2000 and 2050 at 30 and 2 hours before the instant
  \<open>108000000000000\<close> (30 hours after the epoch), followed by a sample without a close;
  and a series whose only sample before the cutoff has no close.
\<close>

definition hourly_example :: dataframe where
  "hourly_example =
     \<lparr>columns = [''Close'', ''Volume''],
      rows = [\<lparr>ts = 0, close = Num 2000, volume = Num 1\<rparr>,
              \<lparr>ts = 100800000000000, close = Num 2050, volume = Num 1\<rparr>,
              \<lparr>ts = 104400000000000, close = NaN, volume = NaN\<rparr>]\<rparr>"

definition hourly_short :: dataframe where
  "hourly_short =
     \<lparr>columns = [''Close'', ''Volume''],
      rows = [\<lparr>ts = 0, close = NaN, volume = Num 1\<rparr>,
              \<lparr>ts = 90000000000000, close = Num 2000, volume = Num 1\<rparr>,
              \<lparr>ts = 100800000000000, close = Num 2050, volume = Num 1\<rparr>]\<rparr>"

text \<open>
  A snapshot whose ETF price and ETF change hold the unavailable marker, all other fields
  being numbers.
\<close>

definition etf_unavailable :: snapshot where
  "etf_unavailable =
     \<lparr>as_of_local = ''2025-01-01 12:00:00 EET'',
      spot = \<lparr>ticker = TICKERS_spot, price = Some (Num (4101 / 2)),
              change_24h_pct = Some (Num (5 / 2))\<rparr>,
      etf = \<lparr>ticker = TICKERS_etf, price = Some NaN, change_24h_pct = Some NaN,
             last_hour_volume = Some (Num 0)\<rparr>,
      futures = \<lparr>tickers = TICKERS_futures, price_main = Some (Num 2061),
                 fut_change_24h_pct = Some (Num (- (5 / 4))),
                 last_hour_volume_sum_of = Some (Num 1234567)\<rparr>,
      totals = \<lparr>last_hour_volume_all = Some (Num 1234567)\<rparr>\<rparr>"

text \<open>
  A series counts as valid when it has at least one non-missing close and none of its
  closes is zero.
\<close>

definition valid_series :: "dataframe \<Rightarrow> bool" where
  "valid_series df \<longleftrightarrow> valid_closes df \<noteq> [] \<and> (\<forall>(t, c) \<in> set (valid_closes df). c \<noteq> 0)"

text \<open>
  A minute series with closes 2049, 2050 and 2051 and 50 units traded in the hour before
  the instant \<open>108000000000000\<close>; and the world in which the retrievals of the
  tickers selected by \<open>up\<close> deliver that series (or the hourly one, for the interval
  \<^verbatim>\<open>1h\<close>) and every other retrieval raises.
\<close>

definition minute_example :: dataframe where
  "minute_example = volume_example 108000000000000 (Num 2049) (Num 2050) (Num 2051)"

definition sample_world :: "(string \<Rightarrow> bool) \<Rightarrow> world" where
  "sample_world up =
     \<lparr>now_local = ''2025-01-01 12:00:00 EET'',
      utc_clock = (\<lambda>k. 108000000000000),
      history = (\<lambda>n t p i.
        if up t then Inr (if i = ''1h'' then hourly_example else minute_example)
        else Inl RetrievalError)\<rparr>"

section \<open>Series of a frame\<close>

lemma dropna_Close:
  "dropna (Close df) = map (\<lambda>r. (ts r, close r)) (filter (\<lambda>r. \<not> isna (close r)) (rows df))"
  by (simp add: dropna_def Close_def filter_map comp_def)

lemma iloc_last_map:
  "xs \<noteq> [] \<Longrightarrow> iloc_last (map (\<lambda>r. (ts r, close r)) xs) = to_real (close (last xs))"
  by (induction xs rule: rev_induct) (simp_all add: iloc_last_def)

lemma index_last_map:
  "xs \<noteq> [] \<Longrightarrow> index_last (map (\<lambda>r. (ts r, close r)) xs) = ts (last xs)"
  by (induction xs rule: rev_induct) (simp_all add: index_last_def)

lemma iloc_first_map:
  "xs \<noteq> [] \<Longrightarrow> iloc_first (map (\<lambda>r. (ts r, close r)) xs) = to_real (close (hd xs))"
  by (cases xs) (simp_all add: iloc_first_def)

lemma loc_upto_map:
  "loc_upto (map (\<lambda>r. (ts r, close r)) xs) k = map (\<lambda>r. (ts r, close r)) (takeWhile (\<lambda>r. ts r \<le> k) xs)"
  by (simp add: loc_upto_def takeWhile_map comp_def)

lemma pct_change_over_hours_rows:
  assumes "''Close'' \<in> set (columns df)"
  shows "pct_change_over_hours df hours
         = pct_change_rows (filter (\<lambda>r. \<not> isna (close r)) (rows df)) hours"
proof -
  let ?v = "filter (\<lambda>r. \<not> isna (close r)) (rows df)"
  have cols: "columns df \<noteq> []" using assms by auto
  show ?thesis
  proof (cases "?v = []")
    case True
    then have "dropna (Close df) = []" by (simp only: dropna_Close list.map)
    with True show ?thesis by (simp add: pct_change_over_hours_def pct_change_rows_def)
  next
    case False
    then have rows: "rows df \<noteq> []" by auto
    have ne: "dropna (Close df) \<noteq> []"
      using False by (simp only: dropna_Close map_is_Nil_conv not_False_eq_True)
    let ?k = "ts (last ?v) - Timedelta_hours hours"
    let ?past = "takeWhile (\<lambda>r. ts r \<le> ?k) ?v"
    have il: "index_last (dropna (Close df)) = ts (last ?v)"
      unfolding dropna_Close by (rule index_last_map[OF False])
    have ll: "iloc_last (dropna (Close df)) = to_real (close (last ?v))"
      unfolding dropna_Close by (rule iloc_last_map[OF False])
    have fl: "iloc_first (dropna (Close df)) = to_real (close (hd ?v))"
      unfolding dropna_Close by (rule iloc_first_map[OF False])
    have pl: "loc_upto (dropna (Close df)) ?k = map (\<lambda>r. (ts r, close r)) ?past"
      unfolding dropna_Close by (rule loc_upto_map)
    have pe: "(loc_upto (dropna (Close df)) ?k = []) = (?past = [])"
      unfolding pl by (simp only: map_is_Nil_conv)
    have pp: "?past \<noteq> [] \<Longrightarrow> iloc_last (loc_upto (dropna (Close df)) ?k) = to_real (close (last ?past))"
      unfolding pl by (rule iloc_last_map)
    have "pct_change_over_hours df hours =
        (let base = (if ?past = [] then to_real (close (hd ?v)) else to_real (close (last ?past)))
         in if base = 0 then NaN else Num ((to_real (close (last ?v)) - base) / base * 100))"
      unfolding pct_change_over_hours_def Let_def il ll fl pe
      using ne rows cols assms pp by (simp add: df_empty_def)
    also have "\<dots> = pct_change_rows ?v hours"
      unfolding pct_change_rows_def Let_def using False by (simp only: if_False if_distrib[of "\<lambda>r. to_real (close r)"])
    finally show ?thesis .
  qed
qed

lemma pct_change_no_close:
  "''Close'' \<notin> set (columns df) \<Longrightarrow> pct_change_over_hours df hours = NaN"
  by (simp add: pct_change_over_hours_def)

lemma hourly_example_change: "pct_change_over_hours hourly_example 24 = Num (5 / 2)"
  by (simp add: pct_change_over_hours_def hourly_example_def df_empty_def dropna_def Close_def
      index_last_def iloc_last_def iloc_first_def loc_upto_def Timedelta_hours_def)

section \<open>Trailing one-hour volume\<close>

lemma masked_rows:
  "map fst (filter snd (zip (map f xs) (map P xs))) = map f (filter P xs)"
  by (induction xs) simp_all

lemma sum_list_filter_index:
  fixes g :: "'a \<Rightarrow> real"
  shows "sum_list (map g (filter P xs)) = (\<Sum>i | i < length xs \<and> P (xs ! i). g (xs ! i))"
proof -
  have "sum_list (map g (filter P xs)) = sum_list (map (\<lambda>x. if P x then g x else 0) xs)"
    by (induction xs) simp_all
  also have "\<dots> = (\<Sum>i = 0..<length xs. if P (xs ! i) then g (xs ! i) else 0)"
    by (simp add: sum_list_sum_nth)
  also have "\<dots> = (\<Sum>i \<in> {i \<in> {0..<length xs}. P (xs ! i)}. g (xs ! i))"
    by (rule sum.inter_filter[symmetric]) simp
  also have "{i \<in> {0..<length xs}. P (xs ! i)} = {i. i < length xs \<and> P (xs ! i)}"
    by auto
  finally show ?thesis .
qed

lemma last_hour_volume_sum_rows:
  assumes "''Volume'' \<in> set (columns df)"
  shows "last_hour_volume_sum df now =
         sum_list (map (\<lambda>r. fillna0 (volume r))
           (filter (\<lambda>r. now - Timedelta_hours 1 < ts r \<and> ts r \<le> now) (rows df)))"
proof (cases "rows df = []")
  case True
  then show ?thesis by (simp add: last_hour_volume_sum_def df_empty_def)
next
  case False
  have cols: "columns df \<noteq> []" using assms by auto
  define mask where "mask = map (\<lambda>r. now - Timedelta_hours 1 < ts r \<and> ts r \<le> now) (rows df)"
  have sel: "map fst (filter snd (zip (Volume df) mask))
        = map (\<lambda>r. (ts r, volume r))
            (filter (\<lambda>r. now - Timedelta_hours 1 < ts r \<and> ts r \<le> now) (rows df))"
    unfolding Volume_def mask_def by (rule masked_rows)
  have "last_hour_volume_sum df now
        = sum_list (map (\<lambda>(t, v). fillna0 v) (map fst (filter snd (zip (Volume df) mask))))"
    using False cols assms
    by (simp add: last_hour_volume_sum_def df_empty_def Let_def mask_def)
  also have "\<dots> = sum_list (map (\<lambda>r. fillna0 (volume r))
           (filter (\<lambda>r. now - Timedelta_hours 1 < ts r \<and> ts r \<le> now) (rows df)))"
    unfolding sel by (simp add: comp_def)
  finally show ?thesis .
qed

lemma last_hour_volume_sum_empty: "df_empty df \<Longrightarrow> last_hour_volume_sum df now = 0"
  by (simp add: last_hour_volume_sum_def)

lemma last_hour_volume_sum_example:
  "last_hour_volume_sum (volume_example now c1 c2 c3) now = 50"
  by (simp add: last_hour_volume_sum_def volume_example_def df_empty_def Volume_def
      Timedelta_hours_def)

lemma last_hour_volume_sum_gaps: "last_hour_volume_sum volume_gaps 3600000000000 = 12"
  by (simp add: last_hour_volume_sum_def volume_gaps_def df_empty_def Volume_def
      Timedelta_hours_def)

text \<open>
  Claim C4. For a series with a volume column and any reference instant \<open>now\<close>, the
  trailing one-hour volume is the sum, over exactly the samples whose timestamp is
  strictly after \<open>now - 1h\<close> and at or before \<open>now\<close>, of their volumes, a missing
  volume counting as zero; it is zero for an empty series; and in the scenario with
  volumes 10, 20 and 30 at 70, 30 and 5 minutes before \<open>now\<close> it is 50.
\<close>

theorem last_hour_volume_sum_window:
  "(''Volume'' \<in> set (columns df) \<longrightarrow>
      last_hour_volume_sum df now =
        (\<Sum>i | i < length (rows df) \<and> now - Timedelta_hours 1 < ts (rows df ! i)
                \<and> ts (rows df ! i) \<le> now.
           fillna0 (volume (rows df ! i))))
   \<and> (df_empty df \<longrightarrow> last_hour_volume_sum df now = 0)
   \<and> last_hour_volume_sum (volume_example now c1 c2 c3) now = 50"
  using last_hour_volume_sum_rows[of df now] last_hour_volume_sum_empty[of df now]
    last_hour_volume_sum_example[of now c1 c2 c3]
    sum_list_filter_index[of "\<lambda>r. fillna0 (volume r)"
      "\<lambda>r. now - Timedelta_hours 1 < ts r \<and> ts r \<le> now" "rows df"]
  by simp

theorem last_hour_volume_sum_window_witness:
  "''Volume'' \<in> set (columns volume_gaps)
   \<and> last_hour_volume_sum volume_gaps 3600000000000 = 12
   \<and> (\<Sum>i | i < length (rows volume_gaps)
              \<and> 3600000000000 - Timedelta_hours 1 < ts (rows volume_gaps ! i)
              \<and> ts (rows volume_gaps ! i) \<le> 3600000000000.
         fillna0 (volume (rows volume_gaps ! i))) = 12
   \<and> df_empty DataFrame
   \<and> last_hour_volume_sum DataFrame 3600000000000 = 0"
proof -
  have v: "''Volume'' \<in> set (columns volume_gaps)"
    by (simp add: volume_gaps_def)
  have e: "df_empty DataFrame"
    by (simp add: df_empty_def DataFrame_def)
  show ?thesis
    using v e last_hour_volume_sum_gaps
      last_hour_volume_sum_window[of volume_gaps 3600000000000 NaN NaN NaN]
      last_hour_volume_sum_window[of DataFrame 3600000000000 NaN NaN NaN]
    by simp
qed

section \<open>Latest price\<close>

lemma dropWhile_rev_case:
  "(case dropWhile Q (rev xs) of [] \<Rightarrow> a | r # _ \<Rightarrow> g r)
   = (if filter (\<lambda>x. \<not> Q x) xs = [] then a else g (last (filter (\<lambda>x. \<not> Q x) xs)))"
  by (induction xs rule: rev_induct) simp_all

lemma latest_price_last_valid: "latest_price df = reported (last_valid_close df)"
proof (cases "''Close'' \<in> set (columns df)")
  case False
  then show ?thesis by (simp add: latest_price_def last_valid_close_def reported_def)
next
  case True
  then have cols: "columns df \<noteq> []" by auto
  let ?v = "filter (\<lambda>r. \<not> isna (close r)) (rows df)"
  have spec: "last_valid_close df = (if ?v = [] then None else Some (to_real (close (last ?v))))"
    unfolding last_valid_close_def using True by (simp only: dropWhile_rev_case if_True)
  show ?thesis
  proof (cases "?v = []")
    case True
    then have "dropna (Close df) = []" by (simp only: dropna_Close list.map)
    with True show ?thesis unfolding spec by (simp add: latest_price_def reported_def)
  next
    case False
    then have rows: "rows df \<noteq> []" by auto
    have ne: "dropna (Close df) \<noteq> []" using False by (simp only: dropna_Close map_is_Nil_conv not_False_eq_True)
    have "latest_price df = Num (iloc_last (dropna (Close df)))"
      using ne rows cols \<open>''Close'' \<in> set (columns df)\<close>
      by (simp add: latest_price_def df_empty_def Let_def)
    also have "\<dots> = Num (to_real (close (last ?v)))"
      unfolding dropna_Close by (simp only: iloc_last_map[OF False])
    finally show ?thesis unfolding spec using False by (simp add: reported_def)
  qed
qed

lemma last_valid_close_empty: "df_empty df \<Longrightarrow> last_valid_close df = None"
  by (auto simp: last_valid_close_def df_empty_def)

lemma latest_price_choice:
  "latest_price (if \<not> df_empty fine then fine else coarse) = fallback_latest_price fine coarse"
  by (simp add: fallback_latest_price_def latest_price_last_valid)

lemma build_spot_price:
  "price (spot (build as_of f now))
   = Some (latest_price (if \<not> df_empty (spot_1m f) then spot_1m f else spot_1h f))"
  unfolding build_def Let_def by simp

lemma build_etf_price:
  "price (etf (build as_of f now))
   = Some (latest_price (if \<not> df_empty (etf_1m f) then etf_1m f else etf_1h f))"
  unfolding build_def Let_def by simp

lemma build_futures_price:
  "price_main (futures (build as_of f now))
   = Some (latest_price (if \<not> df_empty (fut_main_1m f) then fut_main_1m f else fut_main_1h f))"
  unfolding build_def Let_def by simp

text \<open>
  Claim C1 as stated fails: with a minute series whose only close is missing and an hourly
  series closing at 100, the claim gives the price 100, and the builder reports
  not-a-number.
\<close>

theorem latest_price_fallback_counterexample:
  "price (spot (build [] (frames_of minute_missing hourly_100) 0)) = Some NaN
   \<and> claimed_latest_price minute_missing hourly_100 = Num 100"
  by (simp add: build_spot_price frames_of_def minute_missing_def hourly_100_def latest_price_def
      df_empty_def dropna_def Close_def claimed_latest_price_def last_valid_close_def
      reported_def)

text \<open>
  Claim C1, amended. For spot, ETF and the primary futures contract, the reported latest
  price is the close of the last sample with a non-missing close in the fine series when
  the fine frame is not empty, and in the coarse series when the fine frame is empty; it
  is unavailable when the series that is read has no valid close, in particular when the
  fine frame is not empty and has no valid close, and when both frames are empty.
\<close>

theorem latest_price_reported:
  "price (spot (build as_of f now)) = Some (fallback_latest_price (spot_1m f) (spot_1h f))
   \<and> price (etf (build as_of f now)) = Some (fallback_latest_price (etf_1m f) (etf_1h f))
   \<and> price_main (futures (build as_of f now))
       = Some (fallback_latest_price (fut_main_1m f) (fut_main_1h f))
   \<and> (df_empty fine \<and> df_empty coarse \<longrightarrow> fallback_latest_price fine coarse = NaN)
   \<and> (\<not> df_empty fine \<and> last_valid_close fine = None \<longrightarrow>
        fallback_latest_price fine coarse = NaN)"
  by (simp add: build_spot_price build_etf_price build_futures_price latest_price_choice
      fallback_latest_price_def last_valid_close_empty reported_def del: if_not_P)

theorem latest_price_reported_witness:
  "price (spot (build [] (frames_of minute_trailing hourly_100) 0)) = Some (Num 102)
   \<and> price (spot (build [] (frames_of DataFrame hourly_100) 0)) = Some (Num 100)
   \<and> df_empty DataFrame \<and> fallback_latest_price DataFrame DataFrame = NaN
   \<and> \<not> df_empty minute_missing \<and> last_valid_close minute_missing = None
   \<and> fallback_latest_price minute_missing hourly_100 = NaN"
proof -
  have e: "df_empty DataFrame"
    by (simp add: df_empty_def DataFrame_def)
  have m: "\<not> df_empty minute_missing \<and> last_valid_close minute_missing = None"
    by (simp add: df_empty_def minute_missing_def last_valid_close_def)
  have t: "fallback_latest_price minute_trailing hourly_100 = Num 102"
    by (simp add: fallback_latest_price_def df_empty_def minute_trailing_def
        last_valid_close_def reported_def)
  have h: "fallback_latest_price DataFrame hourly_100 = Num 100"
    by (simp add: fallback_latest_price_def df_empty_def DataFrame_def hourly_100_def
        last_valid_close_def reported_def)
  show ?thesis
    using e m t h
      latest_price_reported[of "[]" "frames_of minute_trailing hourly_100" 0 DataFrame DataFrame]
      latest_price_reported[of "[]" "frames_of DataFrame hourly_100" 0 minute_missing hourly_100]
    by (simp add: frames_of_def)
qed

section \<open>The 24-hour change\<close>

lemma most_recent_last:
  "sorted_wrt (<) (map fst s) \<Longrightarrow> s \<noteq> [] \<Longrightarrow> most_recent s = last s"
  unfolding most_recent_def
proof (induction "\<lambda>(t :: int, c :: real). - t" s rule: arg_min_list.induct)
  case (1 x)
  then show ?case by simp
next
  case (2 x y zs)
  then have ih: "arg_min_list (\<lambda>(t, c). - t) (y # zs) = last (y # zs)" by simp
  have "last (y # zs) \<in> set (y # zs)" by (rule last_in_set) simp
  with 2(2) have "fst x < fst (last (y # zs))" by auto
  then show ?case using ih by (auto simp: Let_def split: prod.splits)
next
  case 3
  then show ?case by simp
qed

lemma earliest_hd:
  "sorted_wrt (<) (map fst s) \<Longrightarrow> s \<noteq> [] \<Longrightarrow> earliest s = hd s"
  unfolding earliest_def
proof (induction "\<lambda>(t :: int, c :: real). t" s rule: arg_min_list.induct)
  case (1 x)
  then show ?case by simp
next
  case (2 x y zs)
  then have ih: "arg_min_list (\<lambda>(t, c). t) (y # zs) = y" by simp
  from 2(2) have "fst x < fst y" by simp
  then show ?case using ih by (auto simp: Let_def split: prod.splits)
next
  case 3
  then show ?case by simp
qed

lemma filter_takeWhile_sorted:
  "sorted_wrt (<) (map fst s) \<Longrightarrow>
   filter (\<lambda>(t, c). t \<le> (k::int)) s = takeWhile (\<lambda>(t, c). t \<le> k) s"
proof (induction s)
  case Nil
  then show ?case by simp
next
  case (Cons x xs)
  show ?case
  proof (cases "fst x \<le> k")
    case True
    with Cons show ?thesis by (auto split: prod.splits)
  next
    case False
    with Cons.prems have "\<forall>y \<in> set xs. \<not> fst y \<le> k" by fastforce
    then have "filter (\<lambda>(t, c). t \<le> k) xs = []" by (auto simp: filter_empty_conv)
    with False show ?thesis by (auto split: prod.splits)
  qed
qed

lemma sorted_valid_rows:
  assumes "sorted_wrt (<) (map ts (rows df))"
  shows "sorted_wrt (<) (map ts (filter (\<lambda>r. \<not> isna (close r)) (rows df)))"
  using assms by (simp add: sorted_wrt_map sorted_wrt_filter)

lemma sorted_wrt_takeWhile_ts:
  "sorted_wrt (<) (map ts v) \<Longrightarrow> sorted_wrt (<) (map ts (takeWhile Q v))"
  by (simp add: sorted_wrt_map)

lemma spec_base_rows:
  fixes v :: "row list"
  assumes srt: "sorted_wrt (<) (map ts v)" and ne: "v \<noteq> []"
  defines "s \<equiv> map (\<lambda>r. (ts r, to_real (close r))) v"
  shows "spec_base_24h s
         = to_real (close (let past = takeWhile (\<lambda>r. ts r \<le> ts (last v) - Timedelta_hours 24) v
                           in if past = [] then hd v else last past))"
    and "most_recent s = (ts (last v), to_real (close (last v)))"
proof -
  let ?g = "\<lambda>r. (ts r, to_real (close r))"
  have ss: "sorted_wrt (<) (map fst s)" using srt by (simp add: s_def comp_def)
  have sne: "s \<noteq> []" using ne by (simp add: s_def)
  show mr: "most_recent s = (ts (last v), to_real (close (last v)))"
    using most_recent_last[OF ss sne] ne by (simp add: s_def last_map)
  let ?k = "ts (last v) - Timedelta_hours 24"
  let ?past = "takeWhile (\<lambda>r. ts r \<le> ?k) v"
  have k: "fst (most_recent s) - 24 * 3600000000000 = ?k"
    by (simp add: mr Timedelta_hours_def)
  have f: "filter (\<lambda>(t, c). t \<le> ?k) s = map ?g ?past"
    unfolding filter_takeWhile_sorted[OF ss] by (simp add: s_def takeWhile_map comp_def)
  have e: "earliest s = ?g (hd v)"
    using earliest_hd[OF ss sne] ne by (simp add: s_def hd_map)
  have p: "?past \<noteq> [] \<Longrightarrow> most_recent (map ?g ?past) = ?g (last ?past)"
  proof -
    assume pne: "?past \<noteq> []"
    have "sorted_wrt (<) (map fst (map ?g ?past))"
      using sorted_wrt_takeWhile_ts[OF srt] by (simp add: comp_def)
    from most_recent_last[OF this] pne show ?thesis by (simp add: last_map)
  qed
  show "spec_base_24h s = to_real (close (let past = ?past in if past = [] then hd v else last past))"
    unfolding spec_base_24h_def Let_def k f using e p by simp
qed

lemma spec_pct_change_rows:
  assumes "sorted_wrt (<) (map ts (rows df))" and "''Close'' \<in> set (columns df)"
  shows "spec_pct_change_24h df = pct_change_rows (filter (\<lambda>r. \<not> isna (close r)) (rows df)) 24"
proof -
  let ?v = "filter (\<lambda>r. \<not> isna (close r)) (rows df)"
  have s: "valid_closes df = map (\<lambda>r. (ts r, to_real (close r))) ?v"
    using assms(2) by (simp add: valid_closes_def)
  show ?thesis
  proof (cases "?v = []")
    case True
    then show ?thesis unfolding spec_pct_change_24h_def s pct_change_rows_def by simp
  next
    case False
    note b = spec_base_rows[OF sorted_valid_rows[OF assms(1)] False]
    show ?thesis
      unfolding spec_pct_change_24h_def s pct_change_rows_def Let_def b
      using False by (simp add: Let_def)
  qed
qed

lemma pct_change_over_hours_eq_spec:
  assumes "sorted_wrt (<) (map ts (rows df))"
  shows "pct_change_over_hours df 24 = spec_pct_change_24h df"
proof (cases "''Close'' \<in> set (columns df)")
  case True
  then show ?thesis
    using pct_change_over_hours_rows[OF True, of 24] spec_pct_change_rows[OF assms True] by simp
next
  case False
  then show ?thesis
    by (simp add: pct_change_no_close spec_pct_change_24h_def valid_closes_def)
qed

lemma valid_closes_empty: "df_empty df \<Longrightarrow> valid_closes df = []"
  by (auto simp: valid_closes_def df_empty_def)

lemma spec_pct_change_unavailable:
  "spec_pct_change_24h df = NaN \<longleftrightarrow>
     (df_empty df \<or> valid_closes df = [] \<or> spec_base_24h (valid_closes df) = 0)"
  using valid_closes_empty[of df] by (auto simp: spec_pct_change_24h_def Let_def)

lemma hourly_short_change: "pct_change_over_hours hourly_short 24 = Num (5 / 2)"
  by (simp add: pct_change_over_hours_def hourly_short_def df_empty_def dropna_def Close_def
      index_last_def iloc_last_def iloc_first_def loc_upto_def Timedelta_hours_def)

text \<open>
  Claim C3. On a coarse series with strictly increasing timestamps the 24-hour change is
  the specified one: with \<open>last\<close> the most recent valid close and the cutoff 24 hours
  before its timestamp, \<open>base\<close> is the most recent valid close at or before the cutoff,
  or the earliest valid close of the series when no valid close lies at or before the
  cutoff, and the result is \<open>(last - base) / base * 100\<close>. It is unavailable exactly
  when the frame is empty, when it has no valid close, or when the base is zero (a base
  taken from the valid closes is never missing).
\<close>

theorem pct_change_over_hours_spec:
  assumes "sorted_wrt (<) (map ts (rows df))"
  shows "pct_change_over_hours df 24 = spec_pct_change_24h df
         \<and> (pct_change_over_hours df 24 = NaN \<longleftrightarrow>
              (df_empty df \<or> valid_closes df = [] \<or> spec_base_24h (valid_closes df) = 0))"
  using pct_change_over_hours_eq_spec[OF assms] spec_pct_change_unavailable[of df] by simp

theorem pct_change_over_hours_spec_witness:
  "sorted_wrt (<) (map ts (rows hourly_example))
   \<and> pct_change_over_hours hourly_example 24 = Num (5 / 2)
   \<and> spec_pct_change_24h hourly_example = Num (5 / 2)
   \<and> spec_base_24h (valid_closes hourly_example) = 2000
   \<and> sorted_wrt (<) (map ts (rows hourly_short))
   \<and> spec_pct_change_24h hourly_short = Num (5 / 2)
   \<and> spec_base_24h (valid_closes hourly_short) = 2000"
proof -
  have s1: "sorted_wrt (<) (map ts (rows hourly_example))"
    by (simp add: hourly_example_def)
  have s2: "sorted_wrt (<) (map ts (rows hourly_short))"
    by (simp add: hourly_short_def)
  have b1: "spec_base_24h (valid_closes hourly_example) = 2000"
    by (simp add: spec_base_24h_def valid_closes_def hourly_example_def most_recent_def
        earliest_def)
  have b2: "spec_base_24h (valid_closes hourly_short) = 2000"
    by (simp add: spec_base_24h_def valid_closes_def hourly_short_def most_recent_def
        earliest_def)
  show ?thesis
    using s1 s2 b1 b2 hourly_example_change hourly_short_change
      pct_change_over_hours_spec[OF s1] pct_change_over_hours_spec[OF s2]
    by simp
qed

section \<open>Scale invariance of the change\<close>










section \<open>The formatter\<close>

lemma fmt_money_cases:
  "fmt_money x = Inr (case x of None \<Rightarrow> ''n/a'' | Some NaN \<Rightarrow> ''nan''
                      | Some (Num v) \<Rightarrow> format_comma_2f v)"
  by (cases x rule: format_money.cases) (simp_all add: fmt_money_def)

lemma fmt_int_cases:
  "fmt_int x = Inr (case x of None \<Rightarrow> ''0'' | Some NaN \<Rightarrow> ''0''
                    | Some (Num v) \<Rightarrow> format_comma_int (round_half_even v))"
  by (cases x rule: int_round.cases) (simp_all add: fmt_int_def)

lemma pct_cases:
  "pct x = Inr (case x of None \<Rightarrow> ''n/a'' | Some NaN \<Rightarrow> ''n/a''
                | Some (Num v) \<Rightarrow> format_plus_2f v @ ''%'')"
  by (cases x rule: format_money.cases) (simp_all add: pct_def)

lemma bind_Inr: "bind (Inr v) k = k v"
  by (simp add: bind_def)

text \<open>
  Claim C9. Formatting is a function of the snapshot alone and always succeeds: every
  snapshot, whatever floats, not-a-number values or \<^verbatim>\<open>None\<close> its fields hold, has
  exactly one text, and no exception of the built-in formatting and rounding leaves
  \<^verbatim>\<open>format_snapshot\<close>.
\<close>

theorem format_snapshot_succeeds: "\<exists>!txt. format_snapshot s = Inr txt"
  unfolding format_snapshot_def Let_def fmt_money_cases fmt_int_cases pct_cases bind_Inr
  by simp

lemma format_example_price: "format_comma_2f (4101 / 2) = ''2,050.50''"
  by (simp add: format_comma_2f_def round_half_even_def grouped_def two_digits_def)

lemma format_example_price_main: "format_comma_2f 2061 = ''2,061.00''"
  by (simp add: format_comma_2f_def round_half_even_def grouped_def two_digits_def)

lemma format_example_rise: "format_plus_2f (5 / 2) = ''+2.50''"
  by (simp add: format_plus_2f_def round_half_even_def two_digits_def)

lemma format_example_fall: "format_plus_2f (- (5 / 4)) = ''-1.25''"
  by (simp add: format_plus_2f_def round_half_even_def two_digits_def)

lemma format_example_volume: "format_comma_int (round_half_even 1234567) = ''1,234,567''"
  by (simp add: format_comma_int_def round_half_even_def grouped_def)

lemma format_example_zero: "format_comma_int (round_half_even 0) = ''0''"
  by (simp add: format_comma_int_def round_half_even_def grouped_def)

text \<open>
  Claim C2 says that an unavailable monetary value is rendered as the placeholder
  \<^verbatim>\<open>n/a\<close>. The unavailable marker the builder stores is not-a-number, and
  \<^verbatim>\<open>_fmt_money\<close> renders it as \<^verbatim>\<open>nan\<close>: formatting not-a-number does not raise, so
  the \<^verbatim>\<open>except\<close> branch with the placeholder is not taken. The percentage next to it,
  which tests \<^verbatim>\<open>pd.isna\<close>, does render \<^verbatim>\<open>n/a\<close>.
\<close>

theorem fmt_money_renders_nan:
  "fmt_money (Some NaN) = Inr ''nan''
   \<and> pct (Some NaN) = Inr ''n/a''
   \<and> format_snapshot etf_unavailable =
       Inr (join [CHR 0x0A]
         [txt_title,
          txt_updated @ ''2025-01-01 12:00:00 EET'',
          [],
          txt_spot @ ''XAUUSD=X'' @ [CHR 0x60],
          txt_price @ ''2,050.50'' @ txt_day @ ''+2.50%'',
          [],
          txt_etf @ ''GLD'' @ [CHR 0x60],
          txt_price @ ''nan'' @ txt_day @ ''n/a'',
          txt_volume @ ''0'',
          [],
          txt_futures @ [CHR 0x60] @ ''GC=F'' @ [CHR 0x60] @ '', ''
            @ [CHR 0x60] @ ''MGC=F'' @ [CHR 0x60],
          txt_price_main @ ''2,061.00'' @ txt_day @ ''-1.25%'',
          txt_volume_sum @ ''1,234,567'',
          [],
          txt_total @ ''1,234,567'',
          [],
          txt_source])"
  unfolding format_snapshot_def Let_def fmt_money_cases fmt_int_cases pct_cases bind_Inr
  by (simp add: etf_unavailable_def format_example_price format_example_price_main
      format_example_rise format_example_fall format_example_volume format_example_zero
      TICKERS_spot_def TICKERS_etf_def TICKERS_futures_def)

section \<open>The fields of the snapshot\<close>

lemma fetch_spot_1h: "spot_1h (fetch w) = safe_history w 0 ''XAUUSD=X'' ''3d'' ''1h''"
  by (simp add: fetch_def TICKERS_spot_def)

lemma fetch_etf_1h: "etf_1h (fetch w) = safe_history w 1 ''GLD'' ''5d'' ''1h''"
  by (simp add: fetch_def TICKERS_etf_def)

lemma fetch_fut_main_1h: "fut_main_1h (fetch w) = safe_history w 2 ''GC=F'' ''5d'' ''1h''"
  by (simp add: fetch_def TICKERS_futures_def)

lemma fetch_spot_1m: "spot_1m (fetch w) = safe_history w 3 ''XAUUSD=X'' ''90m'' ''1m''"
  by (simp add: fetch_def TICKERS_spot_def)

lemma fetch_etf_1m: "etf_1m (fetch w) = safe_history w 4 ''GLD'' ''90m'' ''1m''"
  by (simp add: fetch_def TICKERS_etf_def)

lemma fetch_fut_1m_list:
  "fut_1m_list (fetch w)
   = [safe_history w 5 ''GC=F'' ''90m'' ''1m'', safe_history w 6 ''MGC=F'' ''90m'' ''1m'']"
  by (simp add: fetch_def TICKERS_futures_def)

lemma fetch_fut_main_1m: "fut_main_1m (fetch w) = safe_history w 7 ''GC=F'' ''90m'' ''1m''"
  by (simp add: fetch_def TICKERS_futures_def)


lemmas fetch_simps = fetch_spot_1h fetch_etf_1h fetch_fut_main_1h fetch_spot_1m fetch_etf_1m
  fetch_fut_1m_list fetch_fut_main_1m

lemma safe_history_cong:
  "history w' n t p i = history w n t p i \<Longrightarrow> safe_history w' n t p i = safe_history w n t p i"
  by (simp add: safe_history_def)


lemma df_empty_DataFrame: "df_empty DataFrame"
  by (simp add: df_empty_def DataFrame_def)

lemma build_as_of: "as_of_local (build a f now) = a"
  unfolding build_def Let_def by simp

lemma build_spot_ticker: "ticker (spot (build a f now)) = TICKERS_spot"
  unfolding build_def Let_def by simp

lemma build_etf_ticker: "ticker (etf (build a f now)) = TICKERS_etf"
  unfolding build_def Let_def by simp

lemma build_futures_tickers: "tickers (futures (build a f now)) = TICKERS_futures"
  unfolding build_def Let_def by simp



lemma build_futures_change:
  "fut_change_24h_pct (futures (build a f now)) = Some (pct_change_over_hours (fut_main_1h f) 24)"
  unfolding build_def Let_def by simp

lemma foldl_add_sum_list:
  fixes xs :: "real list"
  shows "foldl (+) a xs = a + sum_list xs"
  by (induction xs arbitrary: a) simp_all

lemma build_etf_volume:
  "last_hour_volume (etf (build a f now)) = Some (Num (last_hour_volume_sum (etf_1m f) now))"
  unfolding build_def Let_def by simp

lemma build_futures_volume:
  "last_hour_volume_sum_of (futures (build a f now))
   = Some (Num (sum_list (map (\<lambda>df. last_hour_volume_sum df now) (fut_1m_list f))))"
  unfolding build_def Let_def by (simp add: foldl_add_sum_list)

lemma build_totals:
  "last_hour_volume_all (totals (build a f now))
   = Some (Num (last_hour_volume_sum (etf_1m f) now
                + sum_list (map (\<lambda>df. last_hour_volume_sum df now) (fut_1m_list f))))"
  unfolding build_def Let_def by (simp add: foldl_add_sum_list)




lemma latest_price_empty: "df_empty df \<Longrightarrow> latest_price df = NaN"
  by (simp add: latest_price_def)



lemma valid_series_rows:
  assumes "valid_series df"
  shows "''Close'' \<in> set (columns df)"
    and "filter (\<lambda>r. \<not> isna (close r)) (rows df) \<noteq> []"
    and "\<forall>r \<in> set (filter (\<lambda>r. \<not> isna (close r)) (rows df)). to_real (close r) \<noteq> 0"
proof -
  show c: "''Close'' \<in> set (columns df)"
    using assms by (auto simp: valid_series_def valid_closes_def split: if_splits)
  then have v: "valid_closes df
      = map (\<lambda>r. (ts r, to_real (close r))) (filter (\<lambda>r. \<not> isna (close r)) (rows df))"
    by (simp add: valid_closes_def)
  show "filter (\<lambda>r. \<not> isna (close r)) (rows df) \<noteq> []"
    using assms unfolding valid_series_def v by simp
  show "\<forall>r \<in> set (filter (\<lambda>r. \<not> isna (close r)) (rows df)). to_real (close r) \<noteq> 0"
    using assms unfolding valid_series_def v by auto
qed

lemma valid_series_not_empty: "valid_series df \<Longrightarrow> \<not> df_empty df"
  using valid_closes_empty[of df] by (auto simp: valid_series_def)

lemma valid_series_latest_price:
  assumes "valid_series df"
  shows "\<exists>p. latest_price df = Num p"
proof -
  note r = valid_series_rows[OF assms]
  have "dropna (Close df) \<noteq> []"
    using r(2) by (simp only: dropna_Close map_is_Nil_conv not_False_eq_True)
  then show ?thesis
    using r(1) valid_series_not_empty[OF assms] by (simp add: latest_price_def)
qed

lemma valid_series_change:
  assumes "valid_series df"
  shows "\<exists>c. pct_change_over_hours df hours = Num c"
proof -
  note r = valid_series_rows[OF assms]
  let ?v = "filter (\<lambda>r. \<not> isna (close r)) (rows df)"
  define past where "past = takeWhile (\<lambda>r. ts r \<le> ts (last ?v) - Timedelta_hours hours) ?v"
  define br where "br = (if past = [] then hd ?v else last past)"
  have "br \<in> set ?v"
  proof (cases "past = []")
    case True
    have "hd ?v \<in> set ?v" using r(2) by (rule hd_in_set)
    with True show ?thesis unfolding br_def by simp
  next
    case False
    then have "last past \<in> set past" by (rule last_in_set)
    then have "last past \<in> set ?v" unfolding past_def by (rule set_takeWhileD[THEN conjunct1])
    with False show ?thesis unfolding br_def by simp
  qed
  with r(3) have nz: "to_real (close br) \<noteq> 0" by blast
  have "pct_change_rows ?v hours
        = Num ((to_real (close (last ?v)) - to_real (close br)) / to_real (close br) * 100)"
    unfolding pct_change_rows_def Let_def past_def[symmetric] br_def[symmetric]
    using r(2) nz by simp
  then show ?thesis
    unfolding pct_change_over_hours_rows[OF r(1)] by blast
qed

lemma sample_history_up:
  "up t \<Longrightarrow> safe_history (sample_world up) n t p i
     = (if i = ''1h'' then hourly_example else minute_example)"
  by (simp add: safe_history_def sample_world_def)

lemma sample_history_down:
  "\<not> up t \<Longrightarrow> safe_history (sample_world up) n t p i = DataFrame"
  by (simp add: safe_history_def sample_world_def)

lemma minute_example_price: "latest_price minute_example = Num 2051"
  by (simp add: latest_price_def minute_example_def volume_example_def df_empty_def dropna_def
      Close_def iloc_last_def)

lemma minute_example_volume: "last_hour_volume_sum minute_example 108000000000000 = 50"
  unfolding minute_example_def by (rule last_hour_volume_sum_example)

lemma minute_example_valid: "valid_series minute_example"
  by (simp add: valid_series_def valid_closes_def minute_example_def volume_example_def)

lemma hourly_example_valid: "valid_series hourly_example"
  by (simp add: valid_series_def valid_closes_def hourly_example_def)

lemma minute_example_not_empty: "\<not> df_empty minute_example"
  by (simp add: df_empty_def minute_example_def volume_example_def)

lemma latest_price_DataFrame: "latest_price DataFrame = NaN"
  by (simp add: latest_price_def df_empty_DataFrame)

lemma pct_change_DataFrame: "pct_change_over_hours DataFrame hours = NaN"
  by (simp add: pct_change_over_hours_def df_empty_DataFrame)

lemma volume_DataFrame: "last_hour_volume_sum DataFrame now = 0"
  by (simp add: last_hour_volume_sum_def df_empty_DataFrame)

lemma futures_volume_pair:
  "last_hour_volume_sum_of (futures (build a (fetch w) now))
   = Some (Num (last_hour_volume_sum (safe_history w 5 ''GC=F'' ''90m'' ''1m'') now
                + last_hour_volume_sum (safe_history w 6 ''MGC=F'' ''90m'' ''1m'') now))"
  by (simp add: build_futures_volume fetch_fut_1m_list)

section \<open>The futures group\<close>

lemma futures_primary_only:
  assumes "\<forall>n p i. history w' n ''GC=F'' p i = history w n ''GC=F'' p i"
  shows "price_main (futures (build a (fetch w') now)) = price_main (futures (build a (fetch w) now))"
    and "fut_change_24h_pct (futures (build a (fetch w') now))
         = fut_change_24h_pct (futures (build a (fetch w) now))"
proof -
  have h: "\<And>n p i. safe_history w' n ''GC=F'' p i = safe_history w n ''GC=F'' p i"
    by (rule safe_history_cong) (simp add: assms)
  show "price_main (futures (build a (fetch w') now)) = price_main (futures (build a (fetch w) now))"
    by (simp only: build_futures_price fetch_fut_main_1m fetch_fut_main_1h h)
  show "fut_change_24h_pct (futures (build a (fetch w') now))
         = fut_change_24h_pct (futures (build a (fetch w) now))"
    by (simp only: build_futures_change fetch_fut_main_1h h)
qed

lemma futures_primary_available:
  assumes "valid_series (fut_main_1m f)" and "valid_series (fut_main_1h f)"
  shows "\<exists>p c. price_main (futures (build a f now)) = Some (Num p)
               \<and> fut_change_24h_pct (futures (build a f now)) = Some (Num c)"
proof -
  from valid_series_latest_price[OF assms(1)] obtain p where "latest_price (fut_main_1m f) = Num p" ..
  moreover from valid_series_change[OF assms(2)] obtain c
    where "pct_change_over_hours (fut_main_1h f) 24 = Num c" ..
  ultimately show ?thesis
    using valid_series_not_empty[OF assms(1)]
    by (simp add: build_futures_price build_futures_change)
qed

text \<open>
  Claim C5. In the record built from the fetched frames, the futures volume is the sum of
  the trailing one-hour volumes of the two contracts of the group (the minute series of
  \<^verbatim>\<open>GC=F\<close> and of \<^verbatim>\<open>MGC=F\<close>); when the series of one contract is empty it is the
  trailing-hour volume of the other alone. The futures price and 24-hour change come
  from the primary contract only: two runs whose retrievals for \<^verbatim>\<open>GC=F\<close> agree report
  the same price and change, whatever the secondary contract delivers; and both are
  numbers when the minute and the hourly series of the primary contract are valid.
\<close>

theorem futures_group:
  "fut_1m_list (fetch w)
     = [safe_history w 5 ''GC=F'' ''90m'' ''1m'', safe_history w 6 ''MGC=F'' ''90m'' ''1m'']
   \<and> last_hour_volume_sum_of (futures (build a (fetch w) now))
       = Some (Num (last_hour_volume_sum (safe_history w 5 ''GC=F'' ''90m'' ''1m'') now
                    + last_hour_volume_sum (safe_history w 6 ''MGC=F'' ''90m'' ''1m'') now))
   \<and> (df_empty (safe_history w 6 ''MGC=F'' ''90m'' ''1m'') \<longrightarrow>
        last_hour_volume_sum_of (futures (build a (fetch w) now))
        = Some (Num (last_hour_volume_sum (safe_history w 5 ''GC=F'' ''90m'' ''1m'') now)))
   \<and> (df_empty (safe_history w 5 ''GC=F'' ''90m'' ''1m'') \<longrightarrow>
        last_hour_volume_sum_of (futures (build a (fetch w) now))
        = Some (Num (last_hour_volume_sum (safe_history w 6 ''MGC=F'' ''90m'' ''1m'') now)))
   \<and> ((\<forall>n p i. history w' n ''GC=F'' p i = history w n ''GC=F'' p i) \<longrightarrow>
        price_main (futures (build a (fetch w') now))
          = price_main (futures (build a (fetch w) now))
        \<and> fut_change_24h_pct (futures (build a (fetch w') now))
          = fut_change_24h_pct (futures (build a (fetch w) now)))
   \<and> (valid_series (fut_main_1m (fetch w)) \<and> valid_series (fut_main_1h (fetch w)) \<longrightarrow>
        (\<exists>p c. price_main (futures (build a (fetch w) now)) = Some (Num p)
               \<and> fut_change_24h_pct (futures (build a (fetch w) now)) = Some (Num c)))"
proof (intro conjI impI)
  show "fut_1m_list (fetch w)
     = [safe_history w 5 ''GC=F'' ''90m'' ''1m'', safe_history w 6 ''MGC=F'' ''90m'' ''1m'']"
    by (rule fetch_fut_1m_list)
  note v = futures_volume_pair[of a w now]
  show "last_hour_volume_sum_of (futures (build a (fetch w) now))
       = Some (Num (last_hour_volume_sum (safe_history w 5 ''GC=F'' ''90m'' ''1m'') now
                    + last_hour_volume_sum (safe_history w 6 ''MGC=F'' ''90m'' ''1m'') now))"
    by (rule v)
  show "last_hour_volume_sum_of (futures (build a (fetch w) now))
        = Some (Num (last_hour_volume_sum (safe_history w 5 ''GC=F'' ''90m'' ''1m'') now))"
    if "df_empty (safe_history w 6 ''MGC=F'' ''90m'' ''1m'')"
    unfolding v last_hour_volume_sum_empty[OF that] by simp
  show "last_hour_volume_sum_of (futures (build a (fetch w) now))
        = Some (Num (last_hour_volume_sum (safe_history w 6 ''MGC=F'' ''90m'' ''1m'') now))"
    if "df_empty (safe_history w 5 ''GC=F'' ''90m'' ''1m'')"
    unfolding v last_hour_volume_sum_empty[OF that] by simp
  show "price_main (futures (build a (fetch w') now))
          = price_main (futures (build a (fetch w) now))"
    if "\<forall>n p i. history w' n ''GC=F'' p i = history w n ''GC=F'' p i"
    using that by (rule futures_primary_only(1))
  show "fut_change_24h_pct (futures (build a (fetch w') now))
          = fut_change_24h_pct (futures (build a (fetch w) now))"
    if "\<forall>n p i. history w' n ''GC=F'' p i = history w n ''GC=F'' p i"
    using that by (rule futures_primary_only(2))
  show "\<exists>p c. price_main (futures (build a (fetch w) now)) = Some (Num p)
               \<and> fut_change_24h_pct (futures (build a (fetch w) now)) = Some (Num c)"
    if "valid_series (fut_main_1m (fetch w)) \<and> valid_series (fut_main_1h (fetch w))"
    using that futures_primary_available[of "fetch w" a now] by blast
qed

theorem futures_group_witness:
  "df_empty (safe_history (sample_world (\<lambda>t. t = ''GC=F'')) 6 ''MGC=F'' ''90m'' ''1m'')
   \<and> last_hour_volume_sum_of
        (futures (build [] (fetch (sample_world (\<lambda>t. t = ''GC=F''))) 108000000000000))
       = Some (Num 50)
   \<and> valid_series (fut_main_1m (fetch (sample_world (\<lambda>t. t = ''GC=F''))))
   \<and> valid_series (fut_main_1h (fetch (sample_world (\<lambda>t. t = ''GC=F''))))
   \<and> price_main (futures (build [] (fetch (sample_world (\<lambda>t. t = ''GC=F''))) 108000000000000))
       = Some (Num 2051)
   \<and> fut_change_24h_pct
        (futures (build [] (fetch (sample_world (\<lambda>t. t = ''GC=F''))) 108000000000000))
       = Some (Num (5 / 2))
   \<and> (\<forall>n p i. history (sample_world (\<lambda>t. True)) n ''GC=F'' p i
                = history (sample_world (\<lambda>t. t = ''GC=F'')) n ''GC=F'' p i)
   \<and> price_main (futures (build [] (fetch (sample_world (\<lambda>t. True))) 108000000000000))
       = Some (Num 2051)
   \<and> last_hour_volume_sum_of
        (futures (build [] (fetch (sample_world (\<lambda>t. True))) 108000000000000))
       = Some (Num 100)
   \<and> df_empty (safe_history (sample_world (\<lambda>t. t = ''MGC=F'')) 5 ''GC=F'' ''90m'' ''1m'')
   \<and> last_hour_volume_sum_of
        (futures (build [] (fetch (sample_world (\<lambda>t. t = ''MGC=F''))) 108000000000000))
       = Some (Num 50)"
proof -
  let ?p = "sample_world (\<lambda>t. t = ''GC=F'')"
  let ?b = "sample_world (\<lambda>t. True)"
  let ?m = "sample_world (\<lambda>t. t = ''MGC=F'')"
  let ?T = "108000000000000 :: int"
  have e1: "df_empty (safe_history ?p 6 ''MGC=F'' ''90m'' ''1m'')"
    by (simp add: sample_history_down df_empty_DataFrame)
  have e2: "df_empty (safe_history ?m 5 ''GC=F'' ''90m'' ''1m'')"
    by (simp add: sample_history_down df_empty_DataFrame)
  have v: "valid_series (fut_main_1m (fetch ?p)) \<and> valid_series (fut_main_1h (fetch ?p))"
    by (simp add: fetch_simps sample_history_up minute_example_valid hourly_example_valid)
  have a: "\<forall>n p i. history ?b n ''GC=F'' p i = history ?p n ''GC=F'' p i"
    by (simp add: sample_world_def)
  have pp: "price_main (futures (build [] (fetch ?p) ?T)) = Some (Num 2051)"
    by (simp add: build_futures_price fetch_simps sample_history_up minute_example_not_empty
        minute_example_price)
  have pc: "fut_change_24h_pct (futures (build [] (fetch ?p) ?T)) = Some (Num (5 / 2))"
    by (simp add: build_futures_change fetch_simps sample_history_up hourly_example_change)
  have vb: "last_hour_volume_sum (safe_history ?b 5 ''GC=F'' ''90m'' ''1m'') ?T = 50"
           "last_hour_volume_sum (safe_history ?b 6 ''MGC=F'' ''90m'' ''1m'') ?T = 50"
           "last_hour_volume_sum (safe_history ?p 5 ''GC=F'' ''90m'' ''1m'') ?T = 50"
           "last_hour_volume_sum (safe_history ?m 6 ''MGC=F'' ''90m'' ''1m'') ?T = 50"
    by (simp_all add: sample_history_up minute_example_volume)
  note gp = futures_group[of ?p "[]" ?T ?b]
  note gb = futures_group[of ?b "[]" ?T ?b]
  note gm = futures_group[of ?m "[]" ?T ?b]
  from gp e1 have "last_hour_volume_sum_of (futures (build [] (fetch ?p) ?T))
      = Some (Num (last_hour_volume_sum (safe_history ?p 5 ''GC=F'' ''90m'' ''1m'') ?T))"
    by blast
  then have c1: "last_hour_volume_sum_of (futures (build [] (fetch ?p) ?T)) = Some (Num 50)"
    unfolding vb .
  from gp v have "\<exists>p c. price_main (futures (build [] (fetch ?p) ?T)) = Some (Num p)
      \<and> fut_change_24h_pct (futures (build [] (fetch ?p) ?T)) = Some (Num c)"
    by blast
  from gp a have "price_main (futures (build [] (fetch ?b) ?T))
      = price_main (futures (build [] (fetch ?p) ?T))"
    by blast
  then have c2: "price_main (futures (build [] (fetch ?b) ?T)) = Some (Num 2051)"
    unfolding pp .
  from gb have "last_hour_volume_sum_of (futures (build [] (fetch ?b) ?T))
      = Some (Num (last_hour_volume_sum (safe_history ?b 5 ''GC=F'' ''90m'' ''1m'') ?T
                   + last_hour_volume_sum (safe_history ?b 6 ''MGC=F'' ''90m'' ''1m'') ?T))"
    by blast
  then have c3: "last_hour_volume_sum_of (futures (build [] (fetch ?b) ?T)) = Some (Num 100)"
    unfolding vb by simp
  from gm e2 have "last_hour_volume_sum_of (futures (build [] (fetch ?m) ?T))
      = Some (Num (last_hour_volume_sum (safe_history ?m 6 ''MGC=F'' ''90m'' ''1m'') ?T))"
    by blast
  then have c4: "last_hour_volume_sum_of (futures (build [] (fetch ?m) ?T)) = Some (Num 50)"
    unfolding vb .
  from e1 c1 v pp pc a c2 c3 e2 c4 show ?thesis
    by (intro conjI) (elim conjE, assumption)+
qed

section \<open>Totals\<close>

lemma volumes_without_spot:
  assumes "\<forall>n t p i. t \<noteq> ''XAUUSD=X'' \<longrightarrow> history w' n t p i = history w n t p i"
  shows "etf_1m (fetch w') = etf_1m (fetch w)"
    and "fut_1m_list (fetch w') = fut_1m_list (fetch w)"
proof -
  have h: "safe_history w' n t p i = safe_history w n t p i" if "t \<noteq> ''XAUUSD=X''" for n t p i
    by (rule safe_history_cong) (simp add: assms that)
  show "etf_1m (fetch w') = etf_1m (fetch w)"
    unfolding fetch_etf_1m by (rule h) simp
  show "fut_1m_list (fetch w') = fut_1m_list (fetch w)"
    unfolding fetch_fut_1m_list by (simp add: h)
qed

text \<open>
  Claim C6. The totals figure is the ETF trailing one-hour volume plus the summed futures
  trailing one-hour volume, and spot contributes to no volume figure: two runs that
  differ only in what the retrievals for the spot ticker deliver report the same ETF
  volume, futures volume and total (the spot sub-record itself has no volume field).
\<close>

theorem totals_volume:
  "last_hour_volume (etf (build a (fetch w) now))
     = Some (Num (last_hour_volume_sum (safe_history w 4 ''GLD'' ''90m'' ''1m'') now))
   \<and> last_hour_volume_sum_of (futures (build a (fetch w) now))
     = Some (Num (last_hour_volume_sum (safe_history w 5 ''GC=F'' ''90m'' ''1m'') now
                  + last_hour_volume_sum (safe_history w 6 ''MGC=F'' ''90m'' ''1m'') now))
   \<and> last_hour_volume_all (totals (build a (fetch w) now))
     = Some (Num (last_hour_volume_sum (safe_history w 4 ''GLD'' ''90m'' ''1m'') now
                  + (last_hour_volume_sum (safe_history w 5 ''GC=F'' ''90m'' ''1m'') now
                     + last_hour_volume_sum (safe_history w 6 ''MGC=F'' ''90m'' ''1m'') now)))
   \<and> ((\<forall>n t p i. t \<noteq> ''XAUUSD=X'' \<longrightarrow> history w' n t p i = history w n t p i) \<longrightarrow>
        last_hour_volume (etf (build a (fetch w') now))
          = last_hour_volume (etf (build a (fetch w) now))
        \<and> last_hour_volume_sum_of (futures (build a (fetch w') now))
          = last_hour_volume_sum_of (futures (build a (fetch w) now))
        \<and> last_hour_volume_all (totals (build a (fetch w') now))
          = last_hour_volume_all (totals (build a (fetch w) now)))"
proof (intro conjI impI)
  show "last_hour_volume (etf (build a (fetch w) now))
     = Some (Num (last_hour_volume_sum (safe_history w 4 ''GLD'' ''90m'' ''1m'') now))"
    by (simp add: build_etf_volume fetch_etf_1m)
  show "last_hour_volume_sum_of (futures (build a (fetch w) now))
     = Some (Num (last_hour_volume_sum (safe_history w 5 ''GC=F'' ''90m'' ''1m'') now
                  + last_hour_volume_sum (safe_history w 6 ''MGC=F'' ''90m'' ''1m'') now))"
    by (rule futures_volume_pair)
  show "last_hour_volume_all (totals (build a (fetch w) now))
     = Some (Num (last_hour_volume_sum (safe_history w 4 ''GLD'' ''90m'' ''1m'') now
                  + (last_hour_volume_sum (safe_history w 5 ''GC=F'' ''90m'' ''1m'') now
                     + last_hour_volume_sum (safe_history w 6 ''MGC=F'' ''90m'' ''1m'') now)))"
    by (simp add: build_totals fetch_etf_1m fetch_fut_1m_list)
next
  assume a: "\<forall>n t p i. t \<noteq> ''XAUUSD=X'' \<longrightarrow> history w' n t p i = history w n t p i"
  note v = volumes_without_spot[OF a]
  show "last_hour_volume (etf (build a (fetch w') now))
          = last_hour_volume (etf (build a (fetch w) now))"
    by (simp only: build_etf_volume v)
  show "last_hour_volume_sum_of (futures (build a (fetch w') now))
          = last_hour_volume_sum_of (futures (build a (fetch w) now))"
    by (simp only: build_futures_volume v)
  show "last_hour_volume_all (totals (build a (fetch w') now))
          = last_hour_volume_all (totals (build a (fetch w) now))"
    by (simp only: build_totals v)
qed

theorem totals_volume_witness:
  "last_hour_volume (etf (build [] (fetch (sample_world (\<lambda>t. True))) 108000000000000))
     = Some (Num 50)
   \<and> last_hour_volume_sum_of
        (futures (build [] (fetch (sample_world (\<lambda>t. True))) 108000000000000))
     = Some (Num 100)
   \<and> last_hour_volume_all (totals (build [] (fetch (sample_world (\<lambda>t. True))) 108000000000000))
     = Some (Num 150)
   \<and> (\<forall>n t p i. t = ''XAUUSD=X''
        \<or> history (sample_world (\<lambda>t. t \<noteq> ''XAUUSD=X'')) n t p i
          = history (sample_world (\<lambda>t. True)) n t p i)
   \<and> price (spot (build [] (fetch (sample_world (\<lambda>t. t \<noteq> ''XAUUSD=X''))) 108000000000000))
     = Some NaN
   \<and> price (spot (build [] (fetch (sample_world (\<lambda>t. True))) 108000000000000))
     = Some (Num 2051)
   \<and> last_hour_volume_all
        (totals (build [] (fetch (sample_world (\<lambda>t. t \<noteq> ''XAUUSD=X''))) 108000000000000))
     = Some (Num 150)"
proof -
  let ?b = "sample_world (\<lambda>t. True)"
  let ?s = "sample_world (\<lambda>t. t \<noteq> ''XAUUSD=X'')"
  let ?T = "108000000000000 :: int"
  have a: "\<forall>n t p i. t \<noteq> ''XAUUSD=X'' \<longrightarrow> history ?s n t p i = history ?b n t p i"
    by (simp add: sample_world_def)
  then have a': "\<forall>n t p i. t = ''XAUUSD=X'' \<or> history ?s n t p i = history ?b n t p i"
    by blast
  have vb: "last_hour_volume_sum (safe_history ?b 4 ''GLD'' ''90m'' ''1m'') ?T = 50"
           "last_hour_volume_sum (safe_history ?b 5 ''GC=F'' ''90m'' ''1m'') ?T = 50"
           "last_hour_volume_sum (safe_history ?b 6 ''MGC=F'' ''90m'' ''1m'') ?T = 50"
    by (simp_all add: sample_history_up minute_example_volume)
  have p1: "price (spot (build [] (fetch ?s) ?T)) = Some NaN"
    by (simp add: build_spot_price fetch_simps sample_history_down df_empty_DataFrame
        latest_price_DataFrame)
  have p2: "price (spot (build [] (fetch ?b) ?T)) = Some (Num 2051)"
    by (simp add: build_spot_price fetch_simps sample_history_up minute_example_not_empty
        minute_example_price)
  note t = totals_volume[of "[]" ?b ?T ?s]
  from t have c1: "last_hour_volume (etf (build [] (fetch ?b) ?T)) = Some (Num 50)"
    unfolding vb by blast
  from t have "last_hour_volume_sum_of (futures (build [] (fetch ?b) ?T)) = Some (Num (50 + 50))"
    unfolding vb by blast
  then have c2: "last_hour_volume_sum_of (futures (build [] (fetch ?b) ?T)) = Some (Num 100)"
    by simp
  from t have "last_hour_volume_all (totals (build [] (fetch ?b) ?T)) = Some (Num (50 + (50 + 50)))"
    unfolding vb by blast
  then have c3: "last_hour_volume_all (totals (build [] (fetch ?b) ?T)) = Some (Num 150)"
    by simp
  from t a have "last_hour_volume_all (totals (build [] (fetch ?s) ?T))
      = last_hour_volume_all (totals (build [] (fetch ?b) ?T))"
    by blast
  then have c4: "last_hour_volume_all (totals (build [] (fetch ?s) ?T)) = Some (Num 150)"
    unfolding c3 .
  from c1 c2 c3 a' p1 p2 c4 show ?thesis
    by (intro conjI) (assumption+)
qed

section \<open>Failed retrievals\<close>

lemma empty_choice_price:
  "df_empty fine \<Longrightarrow> df_empty coarse \<Longrightarrow>
   latest_price (if \<not> df_empty fine then fine else coarse) = NaN"
  by (simp add: latest_price_empty)







section \<open>The clock reads of the builder\<close>

text \<open>
  Claim C10 says that \<^verbatim>\<open>get_gold_snapshot\<close> always returns a record of the fixed
  shape. The call ends instead in the \<^verbatim>\<open>TypeError\<close> of its first clock read (line 95),
  whatever the clock and the retrievals give: \<^verbatim>\<open>pd.Timestamp.utcnow()\<close> is already
  timezone-aware, and \<^verbatim>\<open>tz_localize\<close> refuses such a timestamp.
\<close>

theorem get_gold_snapshot_raises: "get_gold_snapshot w = Inl TypeError"
  by (simp add: get_gold_snapshot_def tz_localize_def Timestamp_utcnow_def)

end
